theory Spec2Isabelle
  imports Main "HOL-Library.Word" "HOL-Library.Sublist" "HOL-Library.Signed_Division"
begin

section \<open>PhantomFreq: rotating BLE advertising identities\<close>

text \<open>
  The repository holds four C programs that share one design: \<^verbatim>\<open>linux.c\<close>,
  \<^verbatim>\<open>unnamed/part_000\<close> (the same code as \<^verbatim>\<open>linux.c\<close>, token for token, with
  longer comments), \<^verbatim>\<open>bluetoothFake.c\<close> and \<^verbatim>\<open>ESP32.c\<close>. Definitions that model
  \<^verbatim>\<open>linux.c\<close> therefore model \<^verbatim>\<open>part_000\<close> as well. Functions whose text is the same
  in \<^verbatim>\<open>linux.c\<close> and \<^verbatim>\<open>bluetoothFake.c\<close> are modelled once.
\<close>

subsection \<open>Bytes, C strings and the advertising buffer\<close>

type_synonym byte = "8 word"

text \<open>
  Reading or writing past the end of an array is undefined behaviour in C. The model makes
  it a value: \<open>BufferOverflow n\<close> says that a write needed the destination to hold \<open>n\<close>
  bytes and it does not, \<open>ReadPastEnd\<close> that a copy read more bytes than its source has,
  \<open>IndexOutOfRange i\<close> that an array of the roster was read at index \<open>i\<close> outside it.
\<close>

datatype fault = BufferOverflow nat | ReadPastEnd | IndexOutOfRange int

text \<open>
  A \<^verbatim>\<open>char *\<close> is the list of the bytes it points to; the terminating NUL is implicit at
  the end of the list, and \<open>strlen\<close> stops at an earlier NUL byte when there is one.
\<close>

definition strlen :: "string \<Rightarrow> nat" where
  "strlen s = length (takeWhile (\<lambda>c. c \<noteq> CHR 0x00) s)"

text \<open>\<^verbatim>\<open>memcpy(dst + off, src, n)\<close> into a \<^verbatim>\<open>uint8_t\<close> array.\<close>

definition memcpy :: "byte list \<Rightarrow> nat \<Rightarrow> string \<Rightarrow> nat \<Rightarrow> fault + byte list" where
  "memcpy dst off src n =
     (if length dst < off + n then Inl (BufferOverflow (off + n))
      else if length src < n then Inl ReadPastEnd
      else Inr (take off dst @ map of_char (take n src) @ drop (off + n) dst))"

subsection \<open>The payload encoders\<close>

text \<open>
  \<^verbatim>\<open>linux.c\<close>, \<^verbatim>\<open>set_advertising_data\<close>, lines 42 to 57: the buffer \<^verbatim>\<open>data\<close> and the
  value of \<^verbatim>\<open>index\<close> when the name has been copied. The stores \<^verbatim>\<open>data[index++] = v\<close>
  are at the constant offsets 0 to 4 of a 31-byte array, so they are list updates; the
  \<^verbatim>\<open>memcpy\<close> has a length that depends on the name and is checked.
\<close>

definition linux_adv_data :: "string \<Rightarrow> fault + (byte list \<times> nat)" where
  "linux_adv_data name =
     (let data0 = replicate 31 (0 :: byte);
          data1 = data0[0 := 2];
          data2 = data1[1 := 0x01];
          data3 = data2[2 := 0x06];
          name_len0 = strlen name;
          name_len = (if name_len0 > 29 then 29 else name_len0);
          data4 = data3[3 := of_nat (name_len + 1)];
          data5 = data4[4 := 0x09]
      in case memcpy data5 5 name name_len of
           Inl e \<Rightarrow> Inl e
         | Inr data6 \<Rightarrow> Inr (data6, 5 + name_len))"

text \<open>
  \<^verbatim>\<open>bluetoothFake.c\<close>, \<^verbatim>\<open>set_advertising_data\<close>, lines 41 to 65: the Heart Rate
  service record takes offsets 3 to 6, and the bound on the name is computed from
  \<^verbatim>\<open>index\<close>, which is 7 there.
\<close>

definition fake_adv_data :: "string \<Rightarrow> fault + (byte list \<times> nat)" where
  "fake_adv_data name =
     (let data0 = replicate 31 (0 :: byte);
          data1 = data0[0 := 2];
          data2 = data1[1 := 0x01];
          data3 = data2[2 := 0x06];
          data4 = data3[3 := 3];
          data5 = data4[4 := 0x03];
          data6 = data5[5 := 0x0D];
          data7 = data6[6 := 0x18];
          index = (7 :: nat);
          name_len0 = strlen name;
          name_len = (if name_len0 > 31 - index - 2 then 31 - index - 2 else name_len0);
          data8 = data7[7 := of_nat (name_len + 1)];
          data9 = data8[8 := 0x09]
      in case memcpy data9 9 name name_len of
           Inl e \<Rightarrow> Inl e
         | Inr data10 \<Rightarrow> Inr (data10, 9 + name_len))"

text \<open>
  \<^verbatim>\<open>ESP32.c\<close>, \<^verbatim>\<open>start_advertising\<close>, lines 47 to 65: \<^verbatim>\<open>adv_data\<close> and \<^verbatim>\<open>i\<close> before
  the call of \<^verbatim>\<open>esp_ble_gap_config_adv_data_raw\<close>.
\<close>

definition esp32_adv_data :: "string \<Rightarrow> fault + (byte list \<times> nat)" where
  "esp32_adv_data name =
     (let adv_data0 = replicate 31 (0 :: byte);
          adv_data1 = adv_data0[0 := 2];
          adv_data2 = adv_data1[1 := 0x01];
          adv_data3 = adv_data2[2 := 0x06];
          name_len0 = strlen name;
          name_len = (if name_len0 > 29 then 29 else name_len0);
          adv_data4 = adv_data3[3 := of_nat (name_len + 1)];
          adv_data5 = adv_data4[4 := 0x09]
      in case memcpy adv_data5 5 name name_len of
           Inl e \<Rightarrow> Inl e
         | Inr adv_data6 \<Rightarrow> Inr (adv_data6, 5 + name_len))"

subsection \<open>The HCI socket and the process state (Linux programs)\<close>

text \<open>
  The parameter block that \<^verbatim>\<open>start_advertising\<close> fills after \<^verbatim>\<open>memset\<close>; the fields
  it does not assign stay zero and are left out. \<^verbatim>\<open>htobs\<close> keeps the value on the
  little-endian hosts BlueZ runs on.
\<close>

record adv_params_cp =
  min_interval :: "16 word"
  max_interval :: "16 word"
  advtype :: byte
  own_bdaddr_type :: byte
  chan_map :: byte
  filter_cp :: byte

text \<open>
  The four commands the programs pass to \<^verbatim>\<open>hci_send_cmd\<close> (all with \<^verbatim>\<open>OGF_LE_CTL\<close>), each
  with the parameter bytes it is given.
\<close>

datatype hci_cmd =
    LE_SET_RANDOM_ADDRESS "byte list"
  | LE_SET_ADVERTISING_DATA "byte list"
  | LE_SET_ADVERTISING_PARAMETERS adv_params_cp
  | LE_SET_ADVERTISE_ENABLE byte

text \<open>
  The controller is outside the program: the value \<^verbatim>\<open>hci_send_cmd\<close> returns is a function
  of the commands sent so far and of the command sent now, and the programs only test
  whether it is negative.
\<close>

type_synonym radio = "hci_cmd list \<Rightarrow> hci_cmd \<Rightarrow> int"

record world =
  sent :: "hci_cmd list"
  out :: "string list"
  err :: "string list"
  closed :: bool
  slept :: nat

definition world0 :: world where
  "world0 = \<lparr>sent = [], out = [], err = [], closed = False, slept = 0\<rparr>"

definition hci_send_cmd :: "radio \<Rightarrow> hci_cmd \<Rightarrow> world \<Rightarrow> int \<times> world" where
  "hci_send_cmd r c w = (r (sent w) c, w\<lparr>sent := sent w @ [c]\<rparr>)"

definition perror :: "string \<Rightarrow> world \<Rightarrow> world" where
  "perror msg w = w\<lparr>err := err w @ [msg]\<rparr>"

definition printf :: "string \<Rightarrow> world \<Rightarrow> world" where
  "printf line w = w\<lparr>out := out w @ [line]\<rparr>"

definition sleep :: "nat \<Rightarrow> world \<Rightarrow> world" where
  "sleep n w = w\<lparr>slept := slept w + n\<rparr>"

definition close :: "world \<Rightarrow> world" where
  "close w = w\<lparr>closed := True\<rparr>"

type_synonym bdaddr = "byte list"

text \<open>\<^verbatim>\<open>set_random_mac\<close> (\<^verbatim>\<open>linux.c\<close> 16 to 32, \<^verbatim>\<open>bluetoothFake.c\<close> 16 to 31): returns nothing.\<close>

definition set_random_mac :: "radio \<Rightarrow> bdaddr \<Rightarrow> world \<Rightarrow> world" where
  "set_random_mac r mac w =
     (let (rc, w1) = hci_send_cmd r (LE_SET_RANDOM_ADDRESS (take 6 mac)) w
      in if rc < 0 then perror ''HCI_LE_SET_RANDOM_ADDRESS failed'' w1 else w1)"

text \<open>
  \<^verbatim>\<open>set_advertising_data\<close> of \<^verbatim>\<open>linux.c\<close> (40 to 66): the call that would send the buffer
  is commented out, and the function returns 0.
\<close>

definition linux_set_advertising_data :: "radio \<Rightarrow> string \<Rightarrow> world \<Rightarrow> fault + (int \<times> world)" where
  "linux_set_advertising_data r name w =
     (case linux_adv_data name of
        Inl e \<Rightarrow> Inl e
      | Inr (data, index) \<Rightarrow> Inr (0, w))"

text \<open>
  \<^verbatim>\<open>set_advertising_data\<close> of \<^verbatim>\<open>bluetoothFake.c\<close> (39 to 75): sends the first
  \<^verbatim>\<open>index\<close> bytes of the buffer.
\<close>

definition fake_set_advertising_data :: "radio \<Rightarrow> string \<Rightarrow> world \<Rightarrow> fault + (int \<times> world)" where
  "fake_set_advertising_data r name w =
     (case fake_adv_data name of
        Inl e \<Rightarrow> Inl e
      | Inr (data, index) \<Rightarrow>
          (let (rc, w1) = hci_send_cmd r (LE_SET_ADVERTISING_DATA (take index data)) w
           in if rc < 0 then Inr (- 1, perror ''HCI_LE_SET_ADVERTISING_DATA failed'' w1)
              else Inr (0, w1)))"

definition adv_params :: adv_params_cp where
  "adv_params = \<lparr>min_interval = 0x00A0, max_interval = 0x00A0, advtype = 0x00,
                  own_bdaddr_type = 0x01, chan_map = 0x07, filter_cp = 0x00\<rparr>"

text \<open>\<^verbatim>\<open>start_advertising\<close> (\<^verbatim>\<open>linux.c\<close> 73 to 107, \<^verbatim>\<open>bluetoothFake.c\<close> 82 to 113).\<close>

definition start_advertising :: "radio \<Rightarrow> world \<Rightarrow> int \<times> world" where
  "start_advertising r w =
     (let (rc, w1) = hci_send_cmd r (LE_SET_ADVERTISING_PARAMETERS adv_params) w
      in if rc < 0 then (- 1, perror ''Set advertising parameters failed'' w1)
         else (let (rc2, w2) = hci_send_cmd r (LE_SET_ADVERTISE_ENABLE 0x01) w1
               in if rc2 < 0 then (- 1, perror ''Enable advertising failed'' w2)
                  else (0, w2)))"

text \<open>\<^verbatim>\<open>stop_advertising\<close> (\<^verbatim>\<open>linux.c\<close> 114 to 128, \<^verbatim>\<open>bluetoothFake.c\<close> 120 to 134).\<close>

definition stop_advertising :: "radio \<Rightarrow> world \<Rightarrow> int \<times> world" where
  "stop_advertising r w =
     (let (rc, w1) = hci_send_cmd r (LE_SET_ADVERTISE_ENABLE 0x00) w
      in if rc < 0 then (- 1, perror ''Disable advertising failed'' w1)
         else (0, w1))"

subsection \<open>The scheduling loops of the Linux programs\<close>

definition linux_names :: "string list" where
  "linux_names = [''DISP_01'', ''DISP_02'', ''DISP_03'']"

definition fake_names :: "string list" where
  "fake_names = [''HRM_Brac_01'', ''HRM_Brac_02'', ''HRM_Brac_03'']"

definition macs_str :: "string list" where
  "macs_str = [''AA:BB:CC:DD:EE:01'', ''AA:BB:CC:DD:EE:02'', ''AA:BB:CC:DD:EE:03'']"

text \<open>\<^verbatim>\<open>idx = (idx + 1) % 3\<close> on a C \<^verbatim>\<open>int\<close>: the remainder truncates towards zero.\<close>

definition next_idx :: "int \<Rightarrow> int" where
  "next_idx idx = (idx + 1) smod 3"

text \<open>One pass through the body of \<^verbatim>\<open>while (1)\<close> either leaves the loop or goes round again.\<close>

datatype step = Break world | Continue int world

fun step_world :: "step \<Rightarrow> world" where
  "step_world (Break w) = w"
| "step_world (Continue idx w) = w"

fun continues :: "step \<Rightarrow> bool" where
  "continues (Break w) = False"
| "continues (Continue idx w) = True"

text \<open>
  The body of the loop of \<^verbatim>\<open>linux.c\<close> (161 to 176). \<open>macs\<close> is the local array that
  \<^verbatim>\<open>main\<close> fills with \<^verbatim>\<open>str2ba\<close>; the three arrays have three entries.
\<close>

definition linux_body :: "radio \<Rightarrow> bdaddr list \<Rightarrow> int \<Rightarrow> world \<Rightarrow> fault + step" where
  "linux_body r macs idx w =
     (if idx < 0 \<or> 3 \<le> idx then Inl (IndexOutOfRange idx)
      else
        let w1 = printf (''Broadcasting device '' @ linux_names ! nat idx @ '' with MAC ''
                           @ macs_str ! nat idx @ [CHR 0x0A]) w;
            (rc_stop, w2) = stop_advertising r w1;
            w3 = set_random_mac r (macs ! nat idx) w2
        in case linux_set_advertising_data r (linux_names ! nat idx) w3 of
             Inl e \<Rightarrow> Inl e
           | Inr (rc_data, w4) \<Rightarrow>
               if rc_data < 0 then Inr (Break w4)
               else (let (rc_start, w5) = start_advertising r w4
                     in if rc_start < 0 then Inr (Break w5)
                        else Inr (Continue (next_idx idx) (sleep 1 w5))))"

text \<open>
  The body of the loop of \<^verbatim>\<open>bluetoothFake.c\<close> (180 to 196): it sleeps two seconds, and
  before it advances the index.
\<close>

definition fake_body :: "radio \<Rightarrow> bdaddr list \<Rightarrow> int \<Rightarrow> world \<Rightarrow> fault + step" where
  "fake_body r macs idx w =
     (if idx < 0 \<or> 3 \<le> idx then Inl (IndexOutOfRange idx)
      else
        let w1 = printf (''Transmitindo como: '' @ fake_names ! nat idx @ '' | MAC: ''
                           @ macs_str ! nat idx @ [CHR 0x0A]) w;
            (rc_stop, w2) = stop_advertising r w1;
            w3 = set_random_mac r (macs ! nat idx) w2
        in case fake_set_advertising_data r (fake_names ! nat idx) w3 of
             Inl e \<Rightarrow> Inl e
           | Inr (rc_data, w4) \<Rightarrow>
               if rc_data < 0 then Inr (Break w4)
               else (let (rc_start, w5) = start_advertising r w4
                     in if rc_start < 0 then Inr (Break w5)
                        else Inr (Continue (next_idx idx) (sleep 2 w5))))"

text \<open>
  \<^verbatim>\<open>while (1)\<close> may run for ever. The loop is run for at most a given number of passes:
  \<open>Exited w\<close> when a \<^verbatim>\<open>break\<close> left it in state \<open>w\<close>, \<open>Running idx w\<close> when it is still
  inside after these passes, about to start the next one with index \<open>idx\<close>.
\<close>

datatype run = Exited world | Running int world

fun linux_loop :: "nat \<Rightarrow> radio \<Rightarrow> bdaddr list \<Rightarrow> int \<Rightarrow> world \<Rightarrow> fault + run" where
  "linux_loop 0 r macs idx w = Inr (Running idx w)"
| "linux_loop (Suc n) r macs idx w =
     (case linux_body r macs idx w of
        Inl e \<Rightarrow> Inl e
      | Inr (Break w') \<Rightarrow> Inr (Exited w')
      | Inr (Continue idx' w') \<Rightarrow> linux_loop n r macs idx' w')"

fun fake_loop :: "nat \<Rightarrow> radio \<Rightarrow> bdaddr list \<Rightarrow> int \<Rightarrow> world \<Rightarrow> fault + run" where
  "fake_loop 0 r macs idx w = Inr (Running idx w)"
| "fake_loop (Suc n) r macs idx w =
     (case fake_body r macs idx w of
        Inl e \<Rightarrow> Inl e
      | Inr (Break w') \<Rightarrow> Inr (Exited w')
      | Inr (Continue idx' w') \<Rightarrow> fake_loop n r macs idx' w')"

text \<open>
  What a run of \<^verbatim>\<open>main\<close> comes to: the process ended with an exit status, or it is still
  in the loop after the passes it was given.
\<close>

datatype process = Exit int world | Looping int world

text \<open>
  \<^verbatim>\<open>main\<close> of \<^verbatim>\<open>linux.c\<close> (134 to 183). \<open>sock\<close> is what \<^verbatim>\<open>hci_open_dev\<close> returned and
  \<open>str2ba\<close> is the BlueZ conversion of an address string, both from outside the program.
\<close>

definition linux_main :: "nat \<Rightarrow> (string \<Rightarrow> bdaddr) \<Rightarrow> radio \<Rightarrow> int \<Rightarrow> fault + process" where
  "linux_main passes str2ba r sock =
     (if sock < 0 then Inr (Exit 1 (perror ''opening HCI device'' world0))
      else
        let macs = map str2ba macs_str
        in case linux_loop passes r macs 0 world0 of
             Inl e \<Rightarrow> Inl e
           | Inr (Running idx w) \<Rightarrow> Inr (Looping idx w)
           | Inr (Exited w) \<Rightarrow>
               (let (rc_stop, w1) = stop_advertising r w
                in Inr (Exit 0 (close w1))))"

text \<open>
  \<^verbatim>\<open>main\<close> of \<^verbatim>\<open>bluetoothFake.c\<close> (136 to 204). \<open>dev_id\<close> is what \<^verbatim>\<open>hci_get_route\<close>
  returned. The accented letters of its messages are their UTF-8 bytes, as in the file;
  the two lines it prints around the loop get a name each.
\<close>

definition starting_line :: string where
  "starting_line = ''Iniciando simula'' @ [CHR 0xC3, CHR 0xA7, CHR 0xC3, CHR 0xA3]
                     @ ''o de dispositivos BLE...'' @ [CHR 0x0A]"

definition stopping_line :: string where
  "stopping_line = [CHR 0x0A] @ ''Parando an'' @ [CHR 0xC3, CHR 0xBA]
                     @ ''ncio e fechando socket.'' @ [CHR 0x0A]"

definition fake_main :: "nat \<Rightarrow> (string \<Rightarrow> bdaddr) \<Rightarrow> radio \<Rightarrow> int \<Rightarrow> int \<Rightarrow> fault + process" where
  "fake_main passes str2ba r dev_id sock =
     (if dev_id < 0
      then Inr (Exit 1 (perror (''Nenhum dispositivo HCI dispon'' @ [CHR 0xC3, CHR 0xAD] @ ''vel'') world0))
      else if sock < 0 then Inr (Exit 1 (perror ''Falha ao abrir o dispositivo HCI'' world0))
      else
        let macs = map str2ba macs_str;
            w0 = printf starting_line world0
        in case fake_loop passes r macs 0 w0 of
             Inl e \<Rightarrow> Inl e
           | Inr (Running idx w) \<Rightarrow> Inr (Looping idx w)
           | Inr (Exited w) \<Rightarrow>
               (let w1 = printf stopping_line w;
                    (rc_stop, w2) = stop_advertising r w1
                in Inr (Exit 0 (close w2))))"

subsection \<open>The ESP32 program\<close>

text \<open>
  The constants of the ESP-IDF headers that \<^verbatim>\<open>adv_params\<close> names are kept as names; their
  numeric values are not in the repository and no result below depends on them.
\<close>

datatype esp_const =
  ADV_TYPE_IND | BLE_ADDR_TYPE_RANDOM | ADV_CHNL_ALL | ADV_FILTER_ALLOW_SCAN_ANY_CON_ANY

record esp_ble_adv_params =
  adv_int_min :: "16 word"
  adv_int_max :: "16 word"
  adv_type :: esp_const
  own_addr_type :: esp_const
  channel_map :: esp_const
  adv_filter_policy :: esp_const

definition esp32_adv_params :: esp_ble_adv_params where
  "esp32_adv_params = \<lparr>adv_int_min = 0x20, adv_int_max = 0x40, adv_type = ADV_TYPE_IND,
                        own_addr_type = BLE_ADDR_TYPE_RANDOM, channel_map = ADV_CHNL_ALL,
                        adv_filter_policy = ADV_FILTER_ALLOW_SCAN_ANY_CON_ANY\<rparr>"

text \<open>The calls of the GAP API that the loop makes; it ignores what they return.\<close>

datatype esp_call =
    Esp_ble_gap_stop_advertising
  | Esp_ble_gap_set_rand_addr "byte list"
  | Esp_ble_gap_config_adv_data_raw "byte list"
  | Esp_ble_gap_start_advertising esp_ble_adv_params

text \<open>
  \<open>logi\<close> holds the arguments of each \<^verbatim>\<open>ESP_LOGI\<close> line of the loop (name and address),
  \<open>current_idx\<close> is the global of that name, \<open>delayed_ms\<close> adds up the \<^verbatim>\<open>vTaskDelay\<close>s.
\<close>

record esp_world =
  calls :: "esp_call list"
  logi :: "(string \<times> byte list) list"
  current_idx :: int
  delayed_ms :: nat

definition esp_world0 :: esp_world where
  "esp_world0 = \<lparr>calls = [], logi = [], current_idx = 0, delayed_ms = 0\<rparr>"

definition device_names :: "string list" where
  "device_names = [''DISP_01'', ''DISP_02'', ''DISP_03'']"

definition device_macs :: "byte list list" where
  "device_macs = [[0xAA, 0xBB, 0xCC, 0xDD, 0xEE, 0x01],
                  [0xAA, 0xBB, 0xCC, 0xDD, 0xEE, 0x02],
                  [0xAA, 0xBB, 0xCC, 0xDD, 0xEE, 0x03]]"

definition gap_call :: "esp_call \<Rightarrow> esp_world \<Rightarrow> esp_world" where
  "gap_call c w = w\<lparr>calls := calls w @ [c]\<rparr>"

text \<open>\<^verbatim>\<open>start_advertising\<close> of \<^verbatim>\<open>ESP32.c\<close> (44 to 69).\<close>

definition esp32_start_advertising :: "string \<Rightarrow> esp_world \<Rightarrow> fault + esp_world" where
  "esp32_start_advertising name w =
     (case esp32_adv_data name of
        Inl e \<Rightarrow> Inl e
      | Inr (adv_data, i) \<Rightarrow> Inr (gap_call (Esp_ble_gap_config_adv_data_raw (take i adv_data)) w))"

text \<open>The body of the loop of \<^verbatim>\<open>advertising_loop_task\<close> (\<^verbatim>\<open>ESP32.c\<close> 80 to 103).\<close>

definition esp32_body :: "esp_world \<Rightarrow> fault + esp_world" where
  "esp32_body w =
     (if current_idx w < 0 \<or> 3 \<le> current_idx w then Inl (IndexOutOfRange (current_idx w))
      else
        let i = nat (current_idx w);
            w1 = w\<lparr>logi := logi w @ [(device_names ! i, device_macs ! i)]\<rparr>;
            w2 = gap_call Esp_ble_gap_stop_advertising w1;
            w3 = gap_call (Esp_ble_gap_set_rand_addr (device_macs ! i)) w2
        in case esp32_start_advertising (device_names ! i) w3 of
             Inl e \<Rightarrow> Inl e
           | Inr w4 \<Rightarrow>
               (let w5 = gap_call (Esp_ble_gap_start_advertising esp32_adv_params) w4;
                    w6 = w5\<lparr>current_idx := next_idx (current_idx w5)\<rparr>
                in Inr (w6\<lparr>delayed_ms := delayed_ms w6 + 2000\<rparr>)))"

text \<open>The task never leaves its loop; \<open>esp32_loop n\<close> is the state after \<open>n\<close> passes.\<close>

fun esp32_loop :: "nat \<Rightarrow> esp_world \<Rightarrow> fault + esp_world" where
  "esp32_loop 0 w = Inr w"
| "esp32_loop (Suc n) w =
     (case esp32_body w of
        Inl e \<Rightarrow> Inl e
      | Inr w' \<Rightarrow> esp32_loop n w')"

subsection \<open>The five operations of the switch sequence\<close>

text \<open>
  The specification names the radio operations \<open>stop\<close>, \<open>setAddress\<close>, \<open>setPayload\<close>,
  \<open>setParameters\<close> and \<open>start\<close>. Each HCI command is one of them. On the ESP32 the call
  \<^verbatim>\<open>esp_ble_gap_start_advertising(&adv_params)\<close> both programs the parameters and starts.
\<close>

datatype radio_op = OpStop | OpSetAddress | OpSetPayload | OpSetParameters | OpStart

fun hci_op :: "hci_cmd \<Rightarrow> radio_op" where
  "hci_op (LE_SET_RANDOM_ADDRESS a) = OpSetAddress"
| "hci_op (LE_SET_ADVERTISING_DATA d) = OpSetPayload"
| "hci_op (LE_SET_ADVERTISING_PARAMETERS p) = OpSetParameters"
| "hci_op (LE_SET_ADVERTISE_ENABLE e) = (if e = 0 then OpStop else OpStart)"

fun esp_ops :: "esp_call \<Rightarrow> radio_op list" where
  "esp_ops Esp_ble_gap_stop_advertising = [OpStop]"
| "esp_ops (Esp_ble_gap_set_rand_addr a) = [OpSetAddress]"
| "esp_ops (Esp_ble_gap_config_adv_data_raw d) = [OpSetPayload]"
| "esp_ops (Esp_ble_gap_start_advertising p) = [OpSetParameters, OpStart]"

definition switch_order :: "radio_op list" where
  "switch_order = [OpStop, OpSetAddress, OpSetPayload, OpSetParameters, OpStart]"

subsection \<open>Concrete controllers and inputs\<close>

text \<open>
  What BlueZ's \<^verbatim>\<open>str2ba\<close> stores for a well-formed address string: the six bytes of the
  hexadecimal pairs, the last pair first.
\<close>

definition hex_digit :: "char \<Rightarrow> nat" where
  "hex_digit c =
     (let n = of_char c :: nat
      in if 48 \<le> n \<and> n \<le> 57 then n - 48
         else if 65 \<le> n \<and> n \<le> 70 then n - 55
         else if 97 \<le> n \<and> n \<le> 102 then n - 87
         else 0)"

fun hex_pairs :: "string \<Rightarrow> byte list" where
  "hex_pairs (a # b # sep # rest) = of_nat (16 * hex_digit a + hex_digit b) # hex_pairs rest"
| "hex_pairs [a, b] = [of_nat (16 * hex_digit a + hex_digit b)]"
| "hex_pairs s = []"

definition bluez_str2ba :: "string \<Rightarrow> bdaddr" where
  "bluez_str2ba s = rev (take 6 (hex_pairs s))"

text \<open>A controller that accepts every command, and controllers that refuse one kind.\<close>

definition radio_ok :: radio where
  "radio_ok tr c = 0"

fun radio_refuses_address :: radio where
  "radio_refuses_address tr (LE_SET_RANDOM_ADDRESS a) = - 1"
| "radio_refuses_address tr c = 0"

fun radio_refuses_data :: radio where
  "radio_refuses_data tr (LE_SET_ADVERTISING_DATA d) = - 1"
| "radio_refuses_data tr c = 0"

fun radio_refuses_disable :: radio where
  "radio_refuses_disable tr (LE_SET_ADVERTISE_ENABLE e) = (if e = 0 then - 1 else 0)"
| "radio_refuses_disable tr c = 0"

fun radio_refuses_enable :: radio where
  "radio_refuses_enable tr (LE_SET_ADVERTISE_ENABLE e) = (if e = 0 then 0 else - 1)"
| "radio_refuses_enable tr c = 0"

section \<open>Properties\<close>

subsection \<open>The encoders in closed form\<close>

lemma strlen_le: "strlen s \<le> length s"
  by (simp add: strlen_def length_takeWhile_le)

lemma header5:
  "(replicate 31 (0::byte))[0 := a, 1 := b, 2 := c, 3 := d, 4 := e]
     = [a, b, c, d, e] @ replicate 26 0"
  by (simp add: numeral_eq_Suc)

lemma header9:
  "(replicate 31 (0::byte))[0 := a, 1 := b, 2 := c, 3 := d, 4 := e, 5 := f, 6 := g, 7 := h, 8 := i]
     = [a, b, c, d, e, f, g, h, i] @ replicate 22 0"
  by (simp add: numeral_eq_Suc)

lemma drop5: "drop (5 + k) (a # b # c # d # e # xs) = drop k xs"
  by (simp add: numeral_eq_Suc)

lemma drop9: "drop (9 + k) (a # b # c # d # e # f # g # h # i # xs) = drop k xs"
  by (simp add: numeral_eq_Suc)

text \<open>
  Without the service record the header takes 5 bytes, so 26 are left for the name: a name
  of up to 26 bytes is copied whole, and a longer one makes \<^verbatim>\<open>memcpy\<close> write past the
  buffer, since the code cuts the name at 29 bytes.
\<close>

lemma linux_adv_data_fits:
  assumes "strlen name \<le> 26"
  shows "linux_adv_data name =
           Inr ([2, 1, 6, of_nat (strlen name + 1), 9] @ map of_char (take (strlen name) name)
                  @ replicate (26 - strlen name) 0, 5 + strlen name)"
  unfolding linux_adv_data_def Let_def header5
  using assms strlen_le [of name] by (simp add: memcpy_def drop5)

lemma linux_adv_data_overflows:
  assumes "26 < strlen name"
  shows "linux_adv_data name = Inl (BufferOverflow (5 + min (strlen name) 29))"
  unfolding linux_adv_data_def Let_def header5
  using assms by (simp add: memcpy_def min_def)

lemma esp32_adv_data_eq: "esp32_adv_data name = linux_adv_data name"
  by (simp add: esp32_adv_data_def linux_adv_data_def)

text \<open>With the service record the header takes 9 bytes and the code cuts the name at 22.\<close>

lemma fake_adv_data_eq:
  "fake_adv_data name =
     Inr ([2, 1, 6, 3, 3, 0x0D, 0x18, of_nat (min (strlen name) 22 + 1), 9]
            @ map of_char (take (min (strlen name) 22) name)
            @ replicate (22 - min (strlen name) 22) 0, 9 + min (strlen name) 22)"
  unfolding fake_adv_data_def Let_def header9
  using strlen_le [of name] by (simp add: memcpy_def min_def drop9)

lemma fake_adv_data_bound:
  "\<exists>data index. fake_adv_data name = Inr (data, index) \<and> index \<le> 31 \<and> length data = 31"
  using strlen_le [of name] by (simp add: fake_adv_data_eq min_def)

subsection \<open>One pass of each loop in closed form\<close>

text \<open>
  The roster names are short enough for every encoder, so a pass with an index in range
  never goes wrong; what it sends, prints and returns depends on the controller's answers
  only.
\<close>

lemma roster_index_cases: "0 \<le> idx \<Longrightarrow> idx < 3 \<Longrightarrow> idx = 0 \<or> idx = 1 \<or> idx = (2::int)"
  by arith

lemma linux_names_strlen:
  assumes "0 \<le> idx" "idx < 3"
  shows "strlen (linux_names ! nat idx) = 7"
  using roster_index_cases [OF assms] by (auto simp: linux_names_def strlen_def)

lemma fake_names_strlen:
  assumes "0 \<le> idx" "idx < 3"
  shows "strlen (fake_names ! nat idx) = 11"
  using roster_index_cases [OF assms] by (auto simp: fake_names_def strlen_def)

lemma fake_names_length:
  assumes "0 \<le> idx" "idx < 3"
  shows "length (fake_names ! nat idx) = 11"
  using roster_index_cases [OF assms] by (auto simp: fake_names_def)

lemma device_names_strlen:
  assumes "0 \<le> idx" "idx < 3"
  shows "strlen (device_names ! nat idx) = 7 \<and> length (device_names ! nat idx) = 7"
  using roster_index_cases [OF assms] by (auto simp: device_names_def strlen_def)

lemma linux_set_advertising_data_fits:
  assumes "strlen name \<le> 26"
  shows "linux_set_advertising_data r name w = Inr (0, w)"
  by (simp add: linux_set_advertising_data_def linux_adv_data_fits [OF assms])

lemma take9: "take (9 + k) (a # b # c # d # e # f # g # h # i # xs) = a # b # c # d # e # f # g # h # i # take k xs"
  by (simp add: numeral_eq_Suc)

lemma take5: "take (5 + k) (a # b # c # d # e # xs) = a # b # c # d # e # take k xs"
  by (simp add: numeral_eq_Suc)

lemma fake_set_advertising_data_eq:
  fixes r :: radio and w :: world and name :: string
  defines "c \<equiv> LE_SET_ADVERTISING_DATA
                  ([2, 1, 6, 3, 3, 0x0D, 0x18, of_nat (min (strlen name) 22 + 1), 9]
                     @ map of_char (take (min (strlen name) 22) name))"
  shows "fake_set_advertising_data r name w =
           (if r (sent w) c < 0
            then Inr (- 1, w\<lparr>sent := sent w @ [c], err := err w @ [''HCI_LE_SET_ADVERTISING_DATA failed'']\<rparr>)
            else Inr (0, w\<lparr>sent := sent w @ [c]\<rparr>))"
proof -
  have "length (take (min (strlen name) 22) name) = min (strlen name) 22"
    using strlen_le [of name] by simp
  then have "take (9 + min (strlen name) 22)
           ([2, 1, 6, 3, 3, 0x0D, 0x18, of_nat (min (strlen name) 22 + 1), 9]
              @ map of_char (take (min (strlen name) 22) name) @ replicate (22 - min (strlen name) 22) (0::byte))
         = [2, 1, 6, 3, 3, 0x0D, 0x18, of_nat (min (strlen name) 22 + 1), 9]
              @ map of_char (take (min (strlen name) 22) name)"
    by (simp add: take9 del: length_take)
  then show ?thesis
    unfolding fake_set_advertising_data_def fake_adv_data_eq c_def
    by (simp add: hci_send_cmd_def perror_def del: length_take take_append)
qed

lemma linux_body_cases:
  fixes r :: radio and w :: world and macs :: "bdaddr list" and idx :: int
  assumes "0 \<le> idx" "idx < 3"
  defines "tr \<equiv> sent w"
    and "c1 \<equiv> LE_SET_ADVERTISE_ENABLE 0"
    and "c2 \<equiv> LE_SET_RANDOM_ADDRESS (take 6 (macs ! nat idx))"
    and "c3 \<equiv> LE_SET_ADVERTISING_PARAMETERS adv_params"
    and "c4 \<equiv> LE_SET_ADVERTISE_ENABLE 1"
  shows "\<exists>s. linux_body r macs idx w = Inr s
    \<and> sent (step_world s) = tr @ [c1, c2, c3] @ (if r (tr @ [c1, c2]) c3 < 0 then [] else [c4])
    \<and> err (step_world s) = err w
         @ (if r tr c1 < 0 then [''Disable advertising failed''] else [])
         @ (if r (tr @ [c1]) c2 < 0 then [''HCI_LE_SET_RANDOM_ADDRESS failed''] else [])
         @ (if r (tr @ [c1, c2]) c3 < 0 then [''Set advertising parameters failed'']
            else if r (tr @ [c1, c2, c3]) c4 < 0 then [''Enable advertising failed''] else [])
    \<and> (continues s \<longleftrightarrow> \<not> r (tr @ [c1, c2]) c3 < 0 \<and> \<not> r (tr @ [c1, c2, c3]) c4 < 0)
    \<and> (continues s \<longrightarrow> s = Continue (next_idx idx) (step_world s))
    \<and> closed (step_world s) = closed w
    \<and> out (step_world s) = out w @ [''Broadcasting device '' @ linux_names ! nat idx @ '' with MAC ''
                           @ macs_str ! nat idx @ [CHR 0x0A]]
    \<and> slept (step_world s) = (if continues s then slept w + 1 else slept w)"
proof -
  define line where "line = ''Broadcasting device '' @ linux_names ! nat idx @ '' with MAC ''
                           @ macs_str ! nat idx @ [CHR 0x0A]"
  define m where "m = take 6 (macs ! nat idx)"
  define j where "j = next_idx idx"
  define f1 where "f1 \<longleftrightarrow> r tr c1 < 0"
  define f2 where "f2 \<longleftrightarrow> r (tr @ [c1]) (LE_SET_RANDOM_ADDRESS m) < 0"
  define f3 where "f3 \<longleftrightarrow> r (tr @ [c1, LE_SET_RANDOM_ADDRESS m]) c3 < 0"
  define f4 where "f4 \<longleftrightarrow> r (tr @ [c1, LE_SET_RANDOM_ADDRESS m, c3]) c4 < 0"
  have fits: "strlen (linux_names ! nat idx) \<le> 26"
    using linux_names_strlen [OF assms(1,2)] by simp
  have guard: "\<not> (idx < 0 \<or> 3 \<le> idx)"
    using assms(1,2) by arith
  have body: "linux_body r macs idx w =
      (let w1 = printf line w;
           (rc_stop, w2) = stop_advertising r w1;
           w3 = set_random_mac r (macs ! nat idx) w2;
           (rc_start, w5) = start_advertising r w3
       in if rc_start < 0 then Inr (Break w5) else Inr (Continue j (sleep 1 w5)))"
    unfolding linux_body_def linux_set_advertising_data_fits [OF fits] line_def j_def
    by (simp only: guard if_False sum.case prod.case Let_def order.strict_iff_order [of "0::int" 0] simp_thms)
  show ?thesis
    unfolding body c2_def m_def [symmetric] line_def [symmetric] j_def [symmetric]
    by (simp add: Let_def stop_advertising_def set_random_mac_def start_advertising_def
        hci_send_cmd_def perror_def printf_def sleep_def tr_def [symmetric] c1_def [symmetric]
        c3_def [symmetric] c4_def [symmetric] m_def [symmetric]
        f1_def [symmetric] f2_def [symmetric] f3_def [symmetric] f4_def [symmetric])
qed

lemma fake_body_cases:
  fixes r :: radio and w :: world and macs :: "bdaddr list" and idx :: int
  assumes "0 \<le> idx" "idx < 3"
  defines "tr \<equiv> sent w"
    and "c1 \<equiv> LE_SET_ADVERTISE_ENABLE 0"
    and "c2 \<equiv> LE_SET_RANDOM_ADDRESS (take 6 (macs ! nat idx))"
    and "c3 \<equiv> LE_SET_ADVERTISING_DATA
                  ([2, 1, 6, 3, 3, 0x0D, 0x18, 12, 9] @ map of_char (fake_names ! nat idx))"
    and "c4 \<equiv> LE_SET_ADVERTISING_PARAMETERS adv_params"
    and "c5 \<equiv> LE_SET_ADVERTISE_ENABLE 1"
  shows "\<exists>s. fake_body r macs idx w = Inr s
    \<and> sent (step_world s) = tr @ [c1, c2, c3]
         @ (if r (tr @ [c1, c2]) c3 < 0 then []
            else if r (tr @ [c1, c2, c3]) c4 < 0 then [c4] else [c4, c5])
    \<and> err (step_world s) = err w
         @ (if r tr c1 < 0 then [''Disable advertising failed''] else [])
         @ (if r (tr @ [c1]) c2 < 0 then [''HCI_LE_SET_RANDOM_ADDRESS failed''] else [])
         @ (if r (tr @ [c1, c2]) c3 < 0 then [''HCI_LE_SET_ADVERTISING_DATA failed'']
            else if r (tr @ [c1, c2, c3]) c4 < 0 then [''Set advertising parameters failed'']
            else if r (tr @ [c1, c2, c3, c4]) c5 < 0 then [''Enable advertising failed''] else [])
    \<and> (continues s \<longleftrightarrow> \<not> r (tr @ [c1, c2]) c3 < 0 \<and> \<not> r (tr @ [c1, c2, c3]) c4 < 0
                         \<and> \<not> r (tr @ [c1, c2, c3, c4]) c5 < 0)
    \<and> (continues s \<longrightarrow> s = Continue (next_idx idx) (step_world s))
    \<and> closed (step_world s) = closed w
    \<and> out (step_world s) = out w @ [''Transmitindo como: '' @ fake_names ! nat idx @ '' | MAC: ''
                           @ macs_str ! nat idx @ [CHR 0x0A]]
    \<and> slept (step_world s) = (if continues s then slept w + 2 else slept w)"
proof -
  define line where "line = ''Transmitindo como: '' @ fake_names ! nat idx @ '' | MAC: ''
                           @ macs_str ! nat idx @ [CHR 0x0A]"
  define m where "m = take 6 (macs ! nat idx)"
  define j where "j = next_idx idx"
  define d where "d = LE_SET_ADVERTISING_DATA
                  ([2, 1, 6, 3, 3, 0x0D, 0x18, 12, 9] @ map of_char (fake_names ! nat idx))"
  define f1 where "f1 \<longleftrightarrow> r tr c1 < 0"
  define f2 where "f2 \<longleftrightarrow> r (tr @ [c1]) (LE_SET_RANDOM_ADDRESS m) < 0"
  define f3 where "f3 \<longleftrightarrow> r (tr @ [c1, LE_SET_RANDOM_ADDRESS m]) d < 0"
  define f4 where "f4 \<longleftrightarrow> r (tr @ [c1, LE_SET_RANDOM_ADDRESS m, d]) c4 < 0"
  define f5 where "f5 \<longleftrightarrow> r (tr @ [c1, LE_SET_RANDOM_ADDRESS m, d, c4]) c5 < 0"
  have guard: "\<not> (idx < 0 \<or> 3 \<le> idx)"
    using assms(1,2) by arith
  have payload: "LE_SET_ADVERTISING_DATA
                  ([2, 1, 6, 3, 3, 0x0D, 0x18, of_nat (min (strlen (fake_names ! nat idx)) 22 + 1), 9]
                     @ map of_char (take (min (strlen (fake_names ! nat idx)) 22) (fake_names ! nat idx))) = d"
    unfolding d_def
    by (simp add: fake_names_strlen [OF assms(1,2)] fake_names_length [OF assms(1,2)])
  have data: "fake_set_advertising_data r (fake_names ! nat idx) w' =
           (if r (sent w') d < 0
            then Inr (- 1, w'\<lparr>sent := sent w' @ [d], err := err w' @ [''HCI_LE_SET_ADVERTISING_DATA failed'']\<rparr>)
            else Inr (0, w'\<lparr>sent := sent w' @ [d]\<rparr>))" for w'
    unfolding fake_set_advertising_data_eq payload ..
  have body: "fake_body r macs idx w =
      (let w1 = printf line w;
           (rc_stop, w2) = stop_advertising r w1;
           w3 = set_random_mac r (macs ! nat idx) w2
       in case fake_set_advertising_data r (fake_names ! nat idx) w3 of
             Inl e \<Rightarrow> Inl e
           | Inr (rc_data, w4) \<Rightarrow>
               if rc_data < 0 then Inr (Break w4)
               else (let (rc_start, w5) = start_advertising r w4
                     in if rc_start < 0 then Inr (Break w5)
                        else Inr (Continue j (sleep 2 w5))))"
    unfolding fake_body_def line_def j_def
    by (simp only: guard if_False)
  show ?thesis
    unfolding body data c2_def c3_def d_def [symmetric] m_def [symmetric] line_def [symmetric] j_def [symmetric]
    by (simp add: Let_def stop_advertising_def set_random_mac_def start_advertising_def
        hci_send_cmd_def perror_def printf_def sleep_def tr_def [symmetric] c1_def [symmetric]
        c4_def [symmetric] c5_def [symmetric] m_def [symmetric]
        f1_def [symmetric] f2_def [symmetric] f3_def [symmetric] f4_def [symmetric] f5_def [symmetric])
qed

lemma esp32_start_advertising_fits:
  assumes "strlen name \<le> 26"
  shows "esp32_start_advertising name w =
           Inr (gap_call (Esp_ble_gap_config_adv_data_raw
                  ([2, 1, 6, of_nat (strlen name + 1), 9] @ map of_char (take (strlen name) name))) w)"
proof -
  have "length (take (strlen name) name) = strlen name"
    using strlen_le [of name] by simp
  then have "take (5 + strlen name) ([2, 1, 6, of_nat (strlen name + 1), 9]
                @ map of_char (take (strlen name) name) @ replicate (26 - strlen name) (0::byte))
           = [2, 1, 6, of_nat (strlen name + 1), 9] @ map of_char (take (strlen name) name)"
    by (simp add: take5 del: length_take)
  then show ?thesis
    unfolding esp32_start_advertising_def esp32_adv_data_eq linux_adv_data_fits [OF assms]
    by (simp del: length_take take_append)
qed

lemma esp32_body_eq:
  assumes "0 \<le> current_idx w" "current_idx w < 3"
  shows "esp32_body w =
     Inr (w\<lparr>calls := calls w @
              [Esp_ble_gap_stop_advertising,
               Esp_ble_gap_set_rand_addr (device_macs ! nat (current_idx w)),
               Esp_ble_gap_config_adv_data_raw
                 ([2, 1, 6, 8, 9] @ map of_char (device_names ! nat (current_idx w))),
               Esp_ble_gap_start_advertising esp32_adv_params],
            logi := logi w @ [(device_names ! nat (current_idx w), device_macs ! nat (current_idx w))],
            current_idx := next_idx (current_idx w),
            delayed_ms := delayed_ms w + 2000\<rparr>)"
proof -
  define nm where "nm = device_names ! nat (current_idx w)"
  define m where "m = device_macs ! nat (current_idx w)"
  define j where "j = next_idx (current_idx w)"
  have len: "strlen nm = 7" "length nm = 7"
    using device_names_strlen [OF assms] by (simp_all add: nm_def)
  have guard: "\<not> (current_idx w < 0 \<or> 3 \<le> current_idx w)"
    using assms by arith
  have start: "esp32_start_advertising nm w' =
           Inr (gap_call (Esp_ble_gap_config_adv_data_raw ([2, 1, 6, 8, 9] @ map of_char nm)) w')" for w'
    using esp32_start_advertising_fits [of nm w'] by (simp add: len)
  show ?thesis
    unfolding esp32_body_def nm_def [symmetric] m_def [symmetric]
    by (simp add: guard Let_def start gap_call_def nm_def [symmetric] m_def [symmetric] j_def [symmetric])
qed

lemma next_idx_values: "next_idx 0 = 1" "next_idx 1 = 2" "next_idx 2 = 0"
  by (simp_all add: next_idx_def signed_modulo_int_def)

lemma next_idx_range: "0 \<le> idx \<Longrightarrow> idx < 3 \<Longrightarrow> 0 \<le> next_idx idx \<and> next_idx idx < 3"
  using roster_index_cases [of idx] by (auto simp: next_idx_values)

lemma next_idx_period:
  assumes "0 \<le> idx" "idx < 3"
  shows "(next_idx ^^ 3) idx = idx"
  using roster_index_cases [OF assms]
  by (auto simp: numeral_3_eq_3 next_idx_values)

lemma next_idx_funpow_range:
  assumes "0 \<le> idx" "idx < 3"
  shows "0 \<le> (next_idx ^^ k) idx \<and> (next_idx ^^ k) idx < 3"
  by (induction k) (use assms next_idx_range in auto)

subsection \<open>The loops\<close>

lemma linux_loop_cursor:
  assumes "0 \<le> idx" "idx < 3"
  shows "\<exists>res. linux_loop n r macs idx w = Inr res
           \<and> (\<forall>idx' w'. res = Running idx' w' \<longrightarrow> idx' = (next_idx ^^ n) idx)"
  using assms
proof (induction n arbitrary: idx w)
  case 0
  then show ?case by simp
next
  case (Suc n)
  obtain s where s: "linux_body r macs idx w = Inr s"
    and c: "continues s \<longrightarrow> s = Continue (next_idx idx) (step_world s)"
    using linux_body_cases [OF Suc.prems, of r macs w] by blast
  show ?case
  proof (cases s)
    case (Break w1)
    with s show ?thesis by simp
  next
    case (Continue i w1)
    with c have i: "i = next_idx idx" by simp
    have "0 \<le> next_idx idx" "next_idx idx < 3"
      using next_idx_range [OF Suc.prems] by simp_all
    from Suc.IH [OF this, of w1] s Continue i show ?thesis
      by (simp add: funpow_swap1)
  qed
qed

lemma fake_loop_cursor:
  assumes "0 \<le> idx" "idx < 3"
  shows "\<exists>res. fake_loop n r macs idx w = Inr res
           \<and> (\<forall>idx' w'. res = Running idx' w' \<longrightarrow> idx' = (next_idx ^^ n) idx)"
  using assms
proof (induction n arbitrary: idx w)
  case 0
  then show ?case by simp
next
  case (Suc n)
  obtain s where s: "fake_body r macs idx w = Inr s"
    and c: "continues s \<longrightarrow> s = Continue (next_idx idx) (step_world s)"
    using fake_body_cases [OF Suc.prems, of r macs w] by blast
  show ?case
  proof (cases s)
    case (Break w1)
    with s show ?thesis by simp
  next
    case (Continue i w1)
    with c have i: "i = next_idx idx" by simp
    have "0 \<le> next_idx idx" "next_idx idx < 3"
      using next_idx_range [OF Suc.prems] by simp_all
    from Suc.IH [OF this, of w1] s Continue i show ?thesis
      by (simp add: funpow_swap1)
  qed
qed

lemma esp32_loop_total:
  assumes "0 \<le> current_idx w" "current_idx w < 3"
  shows "\<exists>w'. esp32_loop n w = Inr w'
           \<and> current_idx w' = (next_idx ^^ n) (current_idx w)
           \<and> map fst (logi w') = map fst (logi w)
                @ map (\<lambda>k. device_names ! nat ((next_idx ^^ k) (current_idx w))) [0..<n]"
  using assms
proof (induction n arbitrary: w)
  case 0
  then show ?case by simp
next
  case (Suc n)
  define w1 where "w1 = w\<lparr>calls := calls w @
              [Esp_ble_gap_stop_advertising,
               Esp_ble_gap_set_rand_addr (device_macs ! nat (current_idx w)),
               Esp_ble_gap_config_adv_data_raw
                 ([2, 1, 6, 8, 9] @ map of_char (device_names ! nat (current_idx w))),
               Esp_ble_gap_start_advertising esp32_adv_params],
            logi := logi w @ [(device_names ! nat (current_idx w), device_macs ! nat (current_idx w))],
            current_idx := next_idx (current_idx w),
            delayed_ms := delayed_ms w + 2000\<rparr>"
  have body: "esp32_body w = Inr w1"
    unfolding w1_def by (rule esp32_body_eq [OF Suc.prems])
  have idx1: "current_idx w1 = next_idx (current_idx w)"
    and log1: "logi w1 = logi w @ [(device_names ! nat (current_idx w), device_macs ! nat (current_idx w))]"
    by (simp_all add: w1_def)
  have "0 \<le> current_idx w1" "current_idx w1 < 3"
    using next_idx_range [OF Suc.prems] by (simp_all add: idx1)
  from Suc.IH [OF this] obtain w' where w': "esp32_loop n w1 = Inr w'"
    and c: "current_idx w' = (next_idx ^^ n) (current_idx w1)"
    and l: "map fst (logi w') = map fst (logi w1)
                @ map (\<lambda>k. device_names ! nat ((next_idx ^^ k) (current_idx w1))) [0..<n]"
    by blast
  have "esp32_loop (Suc n) w = Inr w'"
    by (simp add: body w')
  moreover have "current_idx w' = (next_idx ^^ Suc n) (current_idx w)"
    by (simp add: c idx1 funpow_swap1)
  moreover have "map fst (logi w') = map fst (logi w)
                @ map (\<lambda>k. device_names ! nat ((next_idx ^^ k) (current_idx w))) [0..<Suc n]"
    unfolding l log1 idx1 map_upt_Suc by (simp add: funpow_swap1)
  ultimately show ?case by blast
qed


lemma linux_loop_more_passes:
  "linux_loop n r macs idx w = Inr (Exited w') \<Longrightarrow> linux_loop (n + k) r macs idx w = Inr (Exited w')"
proof (induction n arbitrary: idx w)
  case 0
  then show ?case by simp
next
  case (Suc n)
  then show ?case
    by (auto split: sum.splits step.splits)
qed

lemma fake_loop_more_passes:
  "fake_loop n r macs idx w = Inr (Exited w') \<Longrightarrow> fake_loop (n + k) r macs idx w = Inr (Exited w')"
proof (induction n arbitrary: idx w)
  case 0
  then show ?case by simp
next
  case (Suc n)
  then show ?case
    by (auto split: sum.splits step.splits)
qed

text \<open>The address table that \<^verbatim>\<open>main\<close> builds when \<^verbatim>\<open>str2ba\<close> is BlueZ's.\<close>

lemma roster_macs: "map bluez_str2ba macs_str =
    [[0x01, 0xEE, 0xDD, 0xCC, 0xBB, 0xAA], [0x02, 0xEE, 0xDD, 0xCC, 0xBB, 0xAA],
     [0x03, 0xEE, 0xDD, 0xCC, 0xBB, 0xAA]]"
  by (simp add: bluez_str2ba_def macs_str_def hex_digit_def)


lemma visited_twice:
  assumes "length names = 3"
  shows "map (\<lambda>k. names ! nat ((next_idx ^^ k) 0)) [0..<6] = names @ names"
proof -
  obtain a b c where names: "names = [a, b, c]"
    using assms by (auto simp: length_Suc_conv numeral_3_eq_3)
  have upt6: "[0..<6] = [0, Suc 0, Suc (Suc 0), Suc (Suc (Suc 0)), Suc (Suc (Suc (Suc 0))),
                         Suc (Suc (Suc (Suc (Suc 0))))]"
    by (simp add: upt_rec numeral_eq_Suc)
  show ?thesis
    unfolding upt6 names by (simp add: next_idx_values)
qed


text \<open>What the cleanup after the loop does, and a first pass that the controller ends.\<close>

lemma stop_then_close:
  "sent (close (snd (stop_advertising r w))) = sent w @ [LE_SET_ADVERTISE_ENABLE 0]
   \<and> closed (close (snd (stop_advertising r w)))"
  by (simp add: stop_advertising_def hci_send_cmd_def perror_def close_def)


lemma linux_loop_refused_enable:
  "linux_loop 1 radio_refuses_enable (map bluez_str2ba macs_str) 0 world0 =
     Inr (Exited
       \<lparr>sent = [LE_SET_ADVERTISE_ENABLE 0,
                LE_SET_RANDOM_ADDRESS [0x01, 0xEE, 0xDD, 0xCC, 0xBB, 0xAA],
                LE_SET_ADVERTISING_PARAMETERS adv_params,
                LE_SET_ADVERTISE_ENABLE 1],
        out = [''Broadcasting device DISP_01 with MAC AA:BB:CC:DD:EE:01'' @ [CHR 0x0A]],
        err = [''Enable advertising failed''],
        closed = False, slept = 0\<rparr>)"
  unfolding roster_macs
  by (simp add: linux_body_def linux_names_def macs_str_def world0_def
      linux_set_advertising_data_fits strlen_def
      stop_advertising_def set_random_mac_def start_advertising_def hci_send_cmd_def perror_def
      printf_def sleep_def)


subsection \<open>Payload bound\<close>

text \<open>
  Claim C1: for every name the encoder writes at most 31 bytes into the 31-byte buffer.
  \<^verbatim>\<open>bluetoothFake.c\<close> keeps the bound (\<open>fake_adv_data_bound\<close>). \<^verbatim>\<open>linux.c\<close>,
  \<^verbatim>\<open>part_000\<close> and \<^verbatim>\<open>ESP32.c\<close> do not: they cut the name at 29 bytes after a header
  of 5, so for a name of 27 bytes the copy needs the buffer to hold 32 bytes.
\<close>

theorem name_of_27_bytes_overflows:
  "linux_adv_data (replicate 27 (CHR ''A'')) = Inl (BufferOverflow 32)
   \<and> esp32_adv_data (replicate 27 (CHR ''A'')) = Inl (BufferOverflow 32)"
  by (simp add: esp32_adv_data_eq linux_adv_data_overflows strlen_def)

subsection \<open>Empty name\<close>

text \<open>
  Claim C8: with an empty name and no service record the payload is exactly the five bytes
  2, 0x01, 0x06, 1, 0x09. In \<^verbatim>\<open>linux.c\<close> the buffer holds them in front of its zero
  padding and \<^verbatim>\<open>index\<close> is 5; in \<^verbatim>\<open>ESP32.c\<close> these five bytes are what is handed to
  \<^verbatim>\<open>esp_ble_gap_config_adv_data_raw\<close>.
\<close>

theorem empty_name_payload:
  "linux_adv_data [] = Inr ([2, 0x01, 0x06, 1, 0x09] @ replicate 26 0, 5)
   \<and> esp32_start_advertising [] w
       = Inr (gap_call (Esp_ble_gap_config_adv_data_raw [2, 0x01, 0x06, 1, 0x09]) w)"
  by (simp add: esp32_start_advertising_def esp32_adv_data_eq linux_adv_data_fits strlen_def)

subsection \<open>A failed stop does not end the switch\<close>

text \<open>
  Claim C9: a failure of \<open>stop\<close>, the first step of a switch, is reported and nothing
  more. In every pass of the loops of \<^verbatim>\<open>linux.c\<close> and \<^verbatim>\<open>bluetoothFake.c\<close> the
  command after the disable command is the set-address command, whatever the controller
  answered; a refused disable leaves \<^verbatim>\<open>Disable advertising failed\<close> on the error
  stream; and whether the pass goes round again depends on the answers to the later
  commands only.
\<close>

theorem stop_failure_is_recoverable:
  fixes r :: radio and w :: world and macs :: "bdaddr list" and idx :: int
  defines "stop \<equiv> LE_SET_ADVERTISE_ENABLE 0"
    and "addr \<equiv> LE_SET_RANDOM_ADDRESS (take 6 (macs ! nat idx))"
    and "data \<equiv> LE_SET_ADVERTISING_DATA
                    ([2, 1, 6, 3, 3, 0x0D, 0x18, 12, 9] @ map of_char (fake_names ! nat idx))"
    and "params \<equiv> LE_SET_ADVERTISING_PARAMETERS adv_params"
    and "start \<equiv> LE_SET_ADVERTISE_ENABLE 1"
  assumes "0 \<le> idx" "idx < 3"
  shows "(\<exists>s. linux_body r macs idx w = Inr s
            \<and> prefix (sent w @ [stop, addr]) (sent (step_world s))
            \<and> (r (sent w) stop < 0 \<longrightarrow> ''Disable advertising failed'' \<in> set (err (step_world s)))
            \<and> (continues s \<longleftrightarrow> \<not> r (sent w @ [stop, addr]) params < 0
                                  \<and> \<not> r (sent w @ [stop, addr, params]) start < 0))
       \<and> (\<exists>s. fake_body r macs idx w = Inr s
            \<and> prefix (sent w @ [stop, addr]) (sent (step_world s))
            \<and> (r (sent w) stop < 0 \<longrightarrow> ''Disable advertising failed'' \<in> set (err (step_world s)))
            \<and> (continues s \<longleftrightarrow> \<not> r (sent w @ [stop, addr]) data < 0
                                  \<and> \<not> r (sent w @ [stop, addr, data]) params < 0
                                  \<and> \<not> r (sent w @ [stop, addr, data, params]) start < 0))"
    (is "?linux \<and> ?fake")
proof (rule conjI)
  obtain s where "linux_body r macs idx w = Inr s"
    and "sent (step_world s) = sent w @ [stop, addr, params]
               @ (if r (sent w @ [stop, addr]) params < 0 then [] else [start])"
    and "err (step_world s) = err w
         @ (if r (sent w) stop < 0 then [''Disable advertising failed''] else [])
         @ (if r (sent w @ [stop]) addr < 0 then [''HCI_LE_SET_RANDOM_ADDRESS failed''] else [])
         @ (if r (sent w @ [stop, addr]) params < 0 then [''Set advertising parameters failed'']
            else if r (sent w @ [stop, addr, params]) start < 0
                 then [''Enable advertising failed''] else [])"
    and "continues s \<longleftrightarrow> \<not> r (sent w @ [stop, addr]) params < 0
                              \<and> \<not> r (sent w @ [stop, addr, params]) start < 0"
    using linux_body_cases [OF assms(6,7), of r macs w]
    unfolding stop_def addr_def params_def start_def by blast
  then show ?linux
    by (intro exI [of _ s]) simp
next
  obtain s where "fake_body r macs idx w = Inr s"
    and "sent (step_world s) = sent w @ [stop, addr, data]
         @ (if r (sent w @ [stop, addr]) data < 0 then []
            else if r (sent w @ [stop, addr, data]) params < 0 then [params] else [params, start])"
    and "err (step_world s) = err w
         @ (if r (sent w) stop < 0 then [''Disable advertising failed''] else [])
         @ (if r (sent w @ [stop]) addr < 0 then [''HCI_LE_SET_RANDOM_ADDRESS failed''] else [])
         @ (if r (sent w @ [stop, addr]) data < 0 then [''HCI_LE_SET_ADVERTISING_DATA failed'']
            else if r (sent w @ [stop, addr, data]) params < 0 then [''Set advertising parameters failed'']
            else if r (sent w @ [stop, addr, data, params]) start < 0
                 then [''Enable advertising failed''] else [])"
    and "continues s \<longleftrightarrow> \<not> r (sent w @ [stop, addr]) data < 0
             \<and> \<not> r (sent w @ [stop, addr, data]) params < 0
             \<and> \<not> r (sent w @ [stop, addr, data, params]) start < 0"
    using fake_body_cases [OF assms(6,7), of r macs w]
    unfolding stop_def addr_def data_def params_def start_def by blast
  then show ?fake
    by (intro exI [of _ s]) simp
qed

theorem stop_failure_is_recoverable_witness:
  "radio_refuses_disable (sent world0) (LE_SET_ADVERTISE_ENABLE 0) < 0
   \<and> (\<exists>s. linux_body radio_refuses_disable (map bluez_str2ba macs_str) 0 world0 = Inr s
          \<and> prefix [LE_SET_ADVERTISE_ENABLE 0, LE_SET_RANDOM_ADDRESS [0x01, 0xEE, 0xDD, 0xCC, 0xBB, 0xAA]]
                    (sent (step_world s))
          \<and> ''Disable advertising failed'' \<in> set (err (step_world s))
          \<and> continues s)
   \<and> (\<exists>s. fake_body radio_refuses_disable (map bluez_str2ba macs_str) 0 world0 = Inr s
          \<and> prefix [LE_SET_ADVERTISE_ENABLE 0, LE_SET_RANDOM_ADDRESS [0x01, 0xEE, 0xDD, 0xCC, 0xBB, 0xAA]]
                    (sent (step_world s))
          \<and> ''Disable advertising failed'' \<in> set (err (step_world s))
          \<and> continues s)"
  using stop_failure_is_recoverable [of 0 radio_refuses_disable "map bluez_str2ba macs_str" world0]
  by (simp add: roster_macs world0_def)

subsection \<open>Order of the radio calls in a switch\<close>

text \<open>
  The calls that a pass adds to the trace are, as operations, a subsequence of \<open>stop\<close>,
  \<open>setAddress\<close>, \<open>setPayload\<close>, \<open>setParameters\<close>, \<open>start\<close> that begins with
  \<open>stop\<close>, \<open>setAddress\<close>. In \<^verbatim>\<open>bluetoothFake.c\<close> they are a prefix of the five, cut
  where a call failed, and all five when the pass goes round again; in \<^verbatim>\<open>ESP32.c\<close> they
  are always all five. In \<^verbatim>\<open>linux.c\<close> a pass that goes round again has made four.
\<close>

lemma calls_in_switch_order:
  fixes r :: radio and w :: world and ew :: esp_world and macs :: "bdaddr list" and idx :: int
  assumes "0 \<le> idx" "idx < 3"
  shows "(\<exists>s cyc. linux_body r macs idx w = Inr s \<and> sent (step_world s) = sent w @ cyc
            \<and> subseq (map hci_op cyc) switch_order
            \<and> take 2 (map hci_op cyc) = [OpStop, OpSetAddress]
            \<and> (continues s \<longrightarrow> map hci_op cyc = [OpStop, OpSetAddress, OpSetParameters, OpStart]))
       \<and> (\<exists>s cyc. fake_body r macs idx w = Inr s \<and> sent (step_world s) = sent w @ cyc
            \<and> prefix (map hci_op cyc) switch_order
            \<and> take 3 (map hci_op cyc) = [OpStop, OpSetAddress, OpSetPayload]
            \<and> (continues s \<longrightarrow> map hci_op cyc = switch_order))
       \<and> (\<exists>ew' cyc. esp32_body (ew\<lparr>current_idx := idx\<rparr>) = Inr ew' \<and> calls ew' = calls ew @ cyc
            \<and> concat (map esp_ops cyc) = switch_order)"
    (is "?linux \<and> ?fake \<and> ?esp32")
proof (intro conjI)
  let ?stop = "LE_SET_ADVERTISE_ENABLE 0"
  let ?addr = "LE_SET_RANDOM_ADDRESS (take 6 (macs ! nat idx))"
  let ?params = "LE_SET_ADVERTISING_PARAMETERS adv_params"
  let ?start = "LE_SET_ADVERTISE_ENABLE 1"
  let ?cyc = "[?stop, ?addr, ?params] @ (if r (sent w @ [?stop, ?addr]) ?params < 0 then [] else [?start])"
  obtain s where "linux_body r macs idx w = Inr s"
    and "sent (step_world s) = sent w @ ?cyc"
    and "continues s \<longleftrightarrow> \<not> r (sent w @ [?stop, ?addr]) ?params < 0
                              \<and> \<not> r (sent w @ [?stop, ?addr, ?params]) ?start < 0"
    using linux_body_cases [OF assms, of r macs w] by blast
  then show ?linux
    by (intro exI [of _ s] exI [of _ ?cyc]) (simp add: switch_order_def)
next
  let ?stop = "LE_SET_ADVERTISE_ENABLE 0"
  let ?addr = "LE_SET_RANDOM_ADDRESS (take 6 (macs ! nat idx))"
  let ?data = "LE_SET_ADVERTISING_DATA
                 ([2, 1, 6, 3, 3, 0x0D, 0x18, 12, 9] @ map of_char (fake_names ! nat idx))"
  let ?params = "LE_SET_ADVERTISING_PARAMETERS adv_params"
  let ?start = "LE_SET_ADVERTISE_ENABLE 1"
  let ?cyc = "[?stop, ?addr, ?data]
         @ (if r (sent w @ [?stop, ?addr]) ?data < 0 then []
            else if r (sent w @ [?stop, ?addr, ?data]) ?params < 0 then [?params]
            else [?params, ?start])"
  obtain s where "fake_body r macs idx w = Inr s"
    and "sent (step_world s) = sent w @ ?cyc"
    and "continues s \<longleftrightarrow> \<not> r (sent w @ [?stop, ?addr]) ?data < 0
                              \<and> \<not> r (sent w @ [?stop, ?addr, ?data]) ?params < 0
                              \<and> \<not> r (sent w @ [?stop, ?addr, ?data, ?params]) ?start < 0"
    using fake_body_cases [OF assms, of r macs w] by blast
  then show ?fake
    by (intro exI [of _ s] exI [of _ ?cyc]) (simp add: switch_order_def)
next
  show ?esp32
    using assms by (simp add: esp32_body_eq switch_order_def)
qed


text \<open>
  Claim C2: in one identity switch \<open>stop\<close> comes before \<open>setAddress\<close>, which comes
  before \<open>setPayload\<close>, which comes before \<open>setParameters\<close>, which comes before
  \<open>start\<close>. \<^verbatim>\<open>bluetoothFake.c\<close> and \<^verbatim>\<open>ESP32.c\<close> keep this chain
  (\<open>calls_in_switch_order\<close>). \<^verbatim>\<open>linux.c\<close> and \<^verbatim>\<open>part_000\<close> break it: no pass, for any
  controller and state, makes a \<open>setPayload\<close> call, so \<open>setParameters\<close> follows
  \<open>setAddress\<close> directly; the pass for the second roster entry with a controller that
  accepts everything makes the four calls \<open>stop\<close>, \<open>setAddress\<close>, \<open>setParameters\<close>,
  \<open>start\<close>.
\<close>

theorem linux_pass_has_no_set_payload:
  "(\<exists>s. linux_body r macs 1 w = Inr s
        \<and> OpSetPayload \<notin> set (map hci_op (drop (length (sent w)) (sent (step_world s)))))
   \<and> linux_body radio_ok (map bluez_str2ba macs_str) 1 world0 =
       Inr (Continue 2
         \<lparr>sent = [LE_SET_ADVERTISE_ENABLE 0,
                  LE_SET_RANDOM_ADDRESS [0x02, 0xEE, 0xDD, 0xCC, 0xBB, 0xAA],
                  LE_SET_ADVERTISING_PARAMETERS adv_params,
                  LE_SET_ADVERTISE_ENABLE 1],
          out = [''Broadcasting device DISP_02 with MAC AA:BB:CC:DD:EE:02'' @ [CHR 0x0A]],
          err = [], closed = False, slept = 1\<rparr>)
   \<and> map hci_op [LE_SET_ADVERTISE_ENABLE 0,
                   LE_SET_RANDOM_ADDRESS [0x02, 0xEE, 0xDD, 0xCC, 0xBB, 0xAA],
                   LE_SET_ADVERTISING_PARAMETERS adv_params,
                   LE_SET_ADVERTISE_ENABLE 1]
       = [OpStop, OpSetAddress, OpSetParameters, OpStart]
   \<and> [OpStop, OpSetAddress, OpSetParameters, OpStart] \<noteq> switch_order"
proof (intro conjI)
  let ?stop = "LE_SET_ADVERTISE_ENABLE 0"
  let ?addr = "LE_SET_RANDOM_ADDRESS (take 6 (macs ! nat 1))"
  let ?params = "LE_SET_ADVERTISING_PARAMETERS adv_params"
  let ?start = "LE_SET_ADVERTISE_ENABLE 1"
  have rng: "(0::int) \<le> 1" "(1::int) < 3"
    by simp_all
  obtain s where "linux_body r macs 1 w = Inr s"
    and "sent (step_world s) = sent w @ [?stop, ?addr, ?params]
           @ (if r (sent w @ [?stop, ?addr]) ?params < 0 then [] else [?start])"
    using linux_body_cases [OF rng, of r macs w] by blast
  then show "\<exists>s. linux_body r macs 1 w = Inr s
        \<and> OpSetPayload \<notin> set (map hci_op (drop (length (sent w)) (sent (step_world s))))"
    by (intro exI [of _ s]) simp
next
  show "linux_body radio_ok (map bluez_str2ba macs_str) 1 world0 =
       Inr (Continue 2
         \<lparr>sent = [LE_SET_ADVERTISE_ENABLE 0,
                  LE_SET_RANDOM_ADDRESS [0x02, 0xEE, 0xDD, 0xCC, 0xBB, 0xAA],
                  LE_SET_ADVERTISING_PARAMETERS adv_params,
                  LE_SET_ADVERTISE_ENABLE 1],
          out = [''Broadcasting device DISP_02 with MAC AA:BB:CC:DD:EE:02'' @ [CHR 0x0A]],
          err = [], closed = False, slept = 1\<rparr>)"
    unfolding roster_macs
    by (simp add: linux_body_def linux_names_def macs_str_def world0_def radio_ok_def
        linux_set_advertising_data_fits strlen_def
        stop_advertising_def set_random_mac_def start_advertising_def hci_send_cmd_def
        printf_def sleep_def next_idx_values)
next
  show "map hci_op [LE_SET_ADVERTISE_ENABLE 0,
                   LE_SET_RANDOM_ADDRESS [0x02, 0xEE, 0xDD, 0xCC, 0xBB, 0xAA],
                   LE_SET_ADVERTISING_PARAMETERS adv_params,
                   LE_SET_ADVERTISE_ENABLE 1]
       = [OpStop, OpSetAddress, OpSetParameters, OpStart]"
    by simp
next
  show "[OpStop, OpSetAddress, OpSetParameters, OpStart] \<noteq> switch_order"
    by (simp add: switch_order_def)
qed


subsection \<open>The roster index goes round\<close>

text \<open>
  Claim C7: three advances bring the index back to where it started, the index stays in
  0, 1, 2, and six visits starting at 0 go through the roster twice. The loops advance the
  index by \<open>next_idx\<close> and in no other way: after \<open>n\<close> passes that did not leave the
  loop the index is \<open>next_idx\<close> applied \<open>n\<close> times, and the ESP32 task, which never
  leaves, has logged the names in that order.
\<close>

theorem roster_is_circular:
  fixes r :: radio and w :: world and ew :: esp_world and macs :: "bdaddr list" and idx :: int and n :: nat
  assumes "0 \<le> idx" "idx < 3"
  shows "(next_idx ^^ 3) idx = idx
       \<and> (\<forall>k. 0 \<le> (next_idx ^^ k) idx \<and> (next_idx ^^ k) idx < 3)
       \<and> map (\<lambda>k. linux_names ! nat ((next_idx ^^ k) 0)) [0..<6] = linux_names @ linux_names
       \<and> map (\<lambda>k. fake_names ! nat ((next_idx ^^ k) 0)) [0..<6] = fake_names @ fake_names
       \<and> map (\<lambda>k. device_names ! nat ((next_idx ^^ k) 0)) [0..<6] = device_names @ device_names
       \<and> (\<exists>res. linux_loop n r macs idx w = Inr res
              \<and> (\<forall>idx' w'. res = Running idx' w' \<longrightarrow> idx' = (next_idx ^^ n) idx))
       \<and> (\<exists>res. fake_loop n r macs idx w = Inr res
              \<and> (\<forall>idx' w'. res = Running idx' w' \<longrightarrow> idx' = (next_idx ^^ n) idx))
       \<and> (\<exists>ew'. esp32_loop n (ew\<lparr>current_idx := idx\<rparr>) = Inr ew'
              \<and> current_idx ew' = (next_idx ^^ n) idx
              \<and> map fst (logi ew') = map fst (logi ew)
                   @ map (\<lambda>k. device_names ! nat ((next_idx ^^ k) idx)) [0..<n])"
proof (intro conjI)
  show "(next_idx ^^ 3) idx = idx"
    by (rule next_idx_period [OF assms])
  show "\<forall>k. 0 \<le> (next_idx ^^ k) idx \<and> (next_idx ^^ k) idx < 3"
    using next_idx_funpow_range [OF assms] by blast
  show "map (\<lambda>k. linux_names ! nat ((next_idx ^^ k) 0)) [0..<6] = linux_names @ linux_names"
    by (rule visited_twice) (simp add: linux_names_def)
  show "map (\<lambda>k. fake_names ! nat ((next_idx ^^ k) 0)) [0..<6] = fake_names @ fake_names"
    by (rule visited_twice) (simp add: fake_names_def)
  show "map (\<lambda>k. device_names ! nat ((next_idx ^^ k) 0)) [0..<6] = device_names @ device_names"
    by (rule visited_twice) (simp add: device_names_def)
  show "\<exists>res. linux_loop n r macs idx w = Inr res
              \<and> (\<forall>idx' w'. res = Running idx' w' \<longrightarrow> idx' = (next_idx ^^ n) idx)"
    by (rule linux_loop_cursor [OF assms])
  show "\<exists>res. fake_loop n r macs idx w = Inr res
              \<and> (\<forall>idx' w'. res = Running idx' w' \<longrightarrow> idx' = (next_idx ^^ n) idx)"
    by (rule fake_loop_cursor [OF assms])
  show "\<exists>ew'. esp32_loop n (ew\<lparr>current_idx := idx\<rparr>) = Inr ew'
              \<and> current_idx ew' = (next_idx ^^ n) idx
              \<and> map fst (logi ew') = map fst (logi ew)
                   @ map (\<lambda>k. device_names ! nat ((next_idx ^^ k) idx)) [0..<n]"
    using esp32_loop_total [of "ew\<lparr>current_idx := idx\<rparr>" n] assms by simp
qed

theorem roster_is_circular_witness:
  "(next_idx ^^ 3) 2 = 2
   \<and> (\<exists>ew'. esp32_loop 6 esp_world0 = Inr ew' \<and> current_idx ew' = 0
          \<and> map fst (logi ew') = device_names @ device_names)"
proof -
  have six: "(next_idx ^^ 6) 0 = 0"
    by (simp add: numeral_eq_Suc next_idx_values)
  have world: "esp_world0\<lparr>current_idx := 0\<rparr> = esp_world0"
    by (simp add: esp_world0_def)
  have no_log: "logi esp_world0 = []"
    by (simp add: esp_world0_def)
  have two: "(0::int) \<le> 2" "(2::int) < 3" and zero: "(0::int) \<le> 0" "(0::int) < 3"
    by simp_all
  note at_2 = roster_is_circular [OF two, where n = 0 and r = radio_ok and macs = "[]"
      and w = world0 and ew = esp_world0]
  note at_0 = roster_is_circular [OF zero, where n = 6 and r = radio_ok and macs = "[]"
      and w = world0 and ew = esp_world0, unfolded world six]
  from at_2 have "(next_idx ^^ 3) 2 = 2"
    by (rule conjunct1)
  moreover from at_0 have "map (\<lambda>k. device_names ! nat ((next_idx ^^ k) 0)) [0..<6]
      = device_names @ device_names"
    by (elim conjE)
  moreover from at_0 have "\<exists>ew'. esp32_loop 6 esp_world0 = Inr ew' \<and> current_idx ew' = 0
      \<and> map fst (logi ew') = map fst (logi esp_world0) @ map (\<lambda>k. device_names ! nat ((next_idx ^^ k) 0)) [0..<6]"
    by (elim conjE)
  ultimately show ?thesis
    by (simp add: no_log)
qed

subsection \<open>A failed set-address\<close>

text \<open>
  Claim C3 says that a failure of the set-address step aborts the scheduling loop. It does
  not: \<^verbatim>\<open>set_random_mac\<close> returns \<^verbatim>\<open>void\<close>, reports the failure with \<^verbatim>\<open>perror\<close>
  and the loop goes on. With a controller that refuses every set-address command the loop
  of \<^verbatim>\<open>linux.c\<close> is still running after two passes, having switched twice, and a pass of
  \<^verbatim>\<open>bluetoothFake.c\<close> sends payload, parameters and enable after the refusal.
\<close>

theorem address_failure_counterexample:
  "linux_loop 2 radio_refuses_address (map bluez_str2ba macs_str) 0 world0 =
     Inr (Running 2
       \<lparr>sent = [LE_SET_ADVERTISE_ENABLE 0,
                LE_SET_RANDOM_ADDRESS [0x01, 0xEE, 0xDD, 0xCC, 0xBB, 0xAA],
                LE_SET_ADVERTISING_PARAMETERS adv_params,
                LE_SET_ADVERTISE_ENABLE 1,
                LE_SET_ADVERTISE_ENABLE 0,
                LE_SET_RANDOM_ADDRESS [0x02, 0xEE, 0xDD, 0xCC, 0xBB, 0xAA],
                LE_SET_ADVERTISING_PARAMETERS adv_params,
                LE_SET_ADVERTISE_ENABLE 1],
        out = [''Broadcasting device DISP_01 with MAC AA:BB:CC:DD:EE:01'' @ [CHR 0x0A],
               ''Broadcasting device DISP_02 with MAC AA:BB:CC:DD:EE:02'' @ [CHR 0x0A]],
        err = [''HCI_LE_SET_RANDOM_ADDRESS failed'', ''HCI_LE_SET_RANDOM_ADDRESS failed''],
        closed = False, slept = 2\<rparr>)
   \<and> fake_body radio_refuses_address (map bluez_str2ba macs_str) 0 world0 =
     Inr (Continue 1
       \<lparr>sent = [LE_SET_ADVERTISE_ENABLE 0,
                LE_SET_RANDOM_ADDRESS [0x01, 0xEE, 0xDD, 0xCC, 0xBB, 0xAA],
                LE_SET_ADVERTISING_DATA ([2, 1, 6, 3, 3, 0x0D, 0x18, 12, 9] @ map of_char ''HRM_Brac_01''),
                LE_SET_ADVERTISING_PARAMETERS adv_params,
                LE_SET_ADVERTISE_ENABLE 1],
        out = [''Transmitindo como: HRM_Brac_01 | MAC: AA:BB:CC:DD:EE:01'' @ [CHR 0x0A]],
        err = [''HCI_LE_SET_RANDOM_ADDRESS failed''],
        closed = False, slept = 2\<rparr>)"
  unfolding roster_macs
  by (simp add: numeral_2_eq_2 linux_body_def fake_body_def linux_names_def fake_names_def
      macs_str_def world0_def linux_set_advertising_data_fits fake_set_advertising_data_eq strlen_def
      stop_advertising_def set_random_mac_def start_advertising_def hci_send_cmd_def perror_def
      printf_def sleep_def next_idx_values)

text \<open>
  Claim C3 as amended: when the set-address command is refused, the failure is written to
  the error stream and the switch goes on with the next step (set-parameters in
  \<^verbatim>\<open>linux.c\<close>, set-payload in \<^verbatim>\<open>bluetoothFake.c\<close>); the loop goes round again exactly
  when the later commands of the pass are accepted.
\<close>

theorem address_failure_is_ignored:
  fixes r :: radio and w :: world and macs :: "bdaddr list" and idx :: int
  defines "stop \<equiv> LE_SET_ADVERTISE_ENABLE 0"
    and "addr \<equiv> LE_SET_RANDOM_ADDRESS (take 6 (macs ! nat idx))"
    and "data \<equiv> LE_SET_ADVERTISING_DATA
                    ([2, 1, 6, 3, 3, 0x0D, 0x18, 12, 9] @ map of_char (fake_names ! nat idx))"
    and "params \<equiv> LE_SET_ADVERTISING_PARAMETERS adv_params"
    and "start \<equiv> LE_SET_ADVERTISE_ENABLE 1"
  assumes "0 \<le> idx" "idx < 3"
    and "r (sent w @ [stop]) addr < 0"
  shows "(\<exists>s. linux_body r macs idx w = Inr s
            \<and> prefix (sent w @ [stop, addr, params]) (sent (step_world s))
            \<and> ''HCI_LE_SET_RANDOM_ADDRESS failed'' \<in> set (err (step_world s))
            \<and> (continues s \<longleftrightarrow> \<not> r (sent w @ [stop, addr]) params < 0
                                  \<and> \<not> r (sent w @ [stop, addr, params]) start < 0))
       \<and> (\<exists>s. fake_body r macs idx w = Inr s
            \<and> prefix (sent w @ [stop, addr, data]) (sent (step_world s))
            \<and> ''HCI_LE_SET_RANDOM_ADDRESS failed'' \<in> set (err (step_world s))
            \<and> (continues s \<longleftrightarrow> \<not> r (sent w @ [stop, addr]) data < 0
                                  \<and> \<not> r (sent w @ [stop, addr, data]) params < 0
                                  \<and> \<not> r (sent w @ [stop, addr, data, params]) start < 0))"
    (is "?linux \<and> ?fake")
proof (rule conjI)
  obtain s where "linux_body r macs idx w = Inr s"
    and "sent (step_world s) = sent w @ [stop, addr, params]
               @ (if r (sent w @ [stop, addr]) params < 0 then [] else [start])"
    and "err (step_world s) = err w
         @ (if r (sent w) stop < 0 then [''Disable advertising failed''] else [])
         @ (if r (sent w @ [stop]) addr < 0 then [''HCI_LE_SET_RANDOM_ADDRESS failed''] else [])
         @ (if r (sent w @ [stop, addr]) params < 0 then [''Set advertising parameters failed'']
            else if r (sent w @ [stop, addr, params]) start < 0
                 then [''Enable advertising failed''] else [])"
    and "continues s \<longleftrightarrow> \<not> r (sent w @ [stop, addr]) params < 0
                              \<and> \<not> r (sent w @ [stop, addr, params]) start < 0"
    using linux_body_cases [OF assms(6,7), of r macs w]
    unfolding stop_def addr_def params_def start_def by blast
  with assms(8) show ?linux
    by (intro exI [of _ s]) simp
next
  obtain s where "fake_body r macs idx w = Inr s"
    and "sent (step_world s) = sent w @ [stop, addr, data]
         @ (if r (sent w @ [stop, addr]) data < 0 then []
            else if r (sent w @ [stop, addr, data]) params < 0 then [params] else [params, start])"
    and "err (step_world s) = err w
         @ (if r (sent w) stop < 0 then [''Disable advertising failed''] else [])
         @ (if r (sent w @ [stop]) addr < 0 then [''HCI_LE_SET_RANDOM_ADDRESS failed''] else [])
         @ (if r (sent w @ [stop, addr]) data < 0 then [''HCI_LE_SET_ADVERTISING_DATA failed'']
            else if r (sent w @ [stop, addr, data]) params < 0 then [''Set advertising parameters failed'']
            else if r (sent w @ [stop, addr, data, params]) start < 0
                 then [''Enable advertising failed''] else [])"
    and "continues s \<longleftrightarrow> \<not> r (sent w @ [stop, addr]) data < 0
             \<and> \<not> r (sent w @ [stop, addr, data]) params < 0
             \<and> \<not> r (sent w @ [stop, addr, data, params]) start < 0"
    using fake_body_cases [OF assms(6,7), of r macs w]
    unfolding stop_def addr_def data_def params_def start_def by blast
  with assms(8) show ?fake
    by (intro exI [of _ s]) simp
qed


theorem address_failure_is_ignored_witness:
  "radio_refuses_address (sent world0 @ [LE_SET_ADVERTISE_ENABLE 0])
       (LE_SET_RANDOM_ADDRESS (take 6 (map bluez_str2ba macs_str ! nat 0))) < 0
   \<and> (\<exists>s. linux_body radio_refuses_address (map bluez_str2ba macs_str) 0 world0 = Inr s
          \<and> prefix [LE_SET_ADVERTISE_ENABLE 0,
                     LE_SET_RANDOM_ADDRESS [0x01, 0xEE, 0xDD, 0xCC, 0xBB, 0xAA],
                     LE_SET_ADVERTISING_PARAMETERS adv_params] (sent (step_world s))
          \<and> ''HCI_LE_SET_RANDOM_ADDRESS failed'' \<in> set (err (step_world s)) \<and> continues s)
   \<and> (\<exists>s. fake_body radio_refuses_address (map bluez_str2ba macs_str) 0 world0 = Inr s
          \<and> prefix [LE_SET_ADVERTISE_ENABLE 0,
                     LE_SET_RANDOM_ADDRESS [0x01, 0xEE, 0xDD, 0xCC, 0xBB, 0xAA],
                     LE_SET_ADVERTISING_DATA
                       ([2, 1, 6, 3, 3, 0x0D, 0x18, 12, 9] @ map of_char (fake_names ! nat 0))]
                    (sent (step_world s))
          \<and> ''HCI_LE_SET_RANDOM_ADDRESS failed'' \<in> set (err (step_world s)) \<and> continues s)"
  using address_failure_is_ignored [of 0 radio_refuses_address world0 "map bluez_str2ba macs_str"]
  by (simp add: roster_macs world0_def)


subsection \<open>The payload is not sent by every variant\<close>

text \<open>
  Claim C4 says that every variant hands the encoded payload to the controller on every
  switch. \<^verbatim>\<open>bluetoothFake.c\<close> and \<^verbatim>\<open>ESP32.c\<close> do (\<open>fake_body_cases\<close>,
  \<open>esp32_body_eq\<close>). \<^verbatim>\<open>linux.c\<close> and \<^verbatim>\<open>part_000\<close> build the buffer and drop it:
  \<^verbatim>\<open>set_advertising_data\<close> leaves the state as it found it, and a whole pass with the
  first roster entry sends four commands, none of them a set-advertising-data command.
\<close>

theorem linux_never_sends_the_payload:
  "linux_set_advertising_data r ''DISP_01'' w = Inr (0, w)
   \<and> linux_body radio_ok (map bluez_str2ba macs_str) 0 world0 =
       Inr (Continue 1
         \<lparr>sent = [LE_SET_ADVERTISE_ENABLE 0,
                  LE_SET_RANDOM_ADDRESS [0x01, 0xEE, 0xDD, 0xCC, 0xBB, 0xAA],
                  LE_SET_ADVERTISING_PARAMETERS adv_params,
                  LE_SET_ADVERTISE_ENABLE 1],
          out = [''Broadcasting device DISP_01 with MAC AA:BB:CC:DD:EE:01'' @ [CHR 0x0A]],
          err = [], closed = False, slept = 1\<rparr>)"
  unfolding roster_macs
  by (simp add: linux_body_def linux_names_def macs_str_def world0_def radio_ok_def
      linux_set_advertising_data_fits strlen_def
      stop_advertising_def set_random_mac_def start_advertising_def hci_send_cmd_def
      printf_def sleep_def next_idx_values)

subsection \<open>Truncation of the name\<close>

text \<open>
  Claim C5 gives the length kept of the name as the greatest \<open>k\<close> with
  \<open>3 + [3 if a service record is present] + 2 + k \<le> 31\<close>. The service record takes four
  bytes (its length byte, its type and the two bytes of the UUID), not three: of a name of
  23 bytes \<^verbatim>\<open>bluetoothFake.c\<close> keeps 22, although \<open>3 + 3 + 2 + 23 \<le> 31\<close>.
\<close>

theorem truncation_counterexample:
  "strlen (replicate 23 (CHR ''A'')) = 23
   \<and> (3::nat) + 3 + 2 + 23 \<le> 31
   \<and> fake_adv_data (replicate 23 (CHR ''A''))
       = Inr ([2, 0x01, 0x06, 3, 0x03, 0x0D, 0x18, 23, 0x09] @ replicate 22 0x41, 31)"
  by (simp add: fake_adv_data_eq strlen_def)


text \<open>
  Claim C5 as amended: with the service record (\<^verbatim>\<open>bluetoothFake.c\<close>) the encoder keeps
  the first \<open>k\<close> bytes of the name for the greatest \<open>k\<close> with \<open>3 + 4 + 2 + k \<le> 31\<close>,
  that is at most 22; it never fails, whatever the length of the name; and the bytes sent
  are a function of the name alone, the same for every controller and state. Without the
  service record (\<^verbatim>\<open>linux.c\<close>, \<^verbatim>\<open>part_000\<close>, \<^verbatim>\<open>ESP32.c\<close>) a name of at most 26 bytes
  is encoded whole. Nothing is said about longer names there.
\<close>

theorem name_truncation:
  fixes name :: string and r :: radio and w :: world
  defines "k \<equiv> min (strlen name) 22"
  shows "(\<exists>data. fake_adv_data name = Inr (data, 3 + 4 + 2 + k)
            \<and> take (3 + 4 + 2 + k) data
                = [2, 0x01, 0x06] @ [3, 0x03, 0x0D, 0x18] @ [of_nat (k + 1), 0x09]
                    @ map of_char (take k name))
       \<and> k \<le> strlen name \<and> 3 + 4 + 2 + k \<le> 31
       \<and> (\<forall>j. j \<le> strlen name \<and> 3 + 4 + 2 + j \<le> 31 \<longrightarrow> j \<le> k)
       \<and> (\<exists>rc w'. fake_set_advertising_data r name w = Inr (rc, w')
             \<and> sent w' = sent w @ [LE_SET_ADVERTISING_DATA
                   ([2, 0x01, 0x06] @ [3, 0x03, 0x0D, 0x18] @ [of_nat (k + 1), 0x09]
                      @ map of_char (take k name))])
       \<and> (strlen name \<le> 26 \<longrightarrow>
             linux_adv_data name
               = Inr ([2, 0x01, 0x06] @ [of_nat (strlen name + 1), 0x09]
                        @ map of_char (take (strlen name) name)
                        @ replicate (26 - strlen name) 0, 3 + 2 + strlen name))"
proof (intro conjI)
  have len: "length (take k name) = k"
    using strlen_le [of name] by (simp add: k_def)
  have cut: "take (9 + k) ([2, 1, 6, 3, 3, 0x0D, 0x18, of_nat (k + 1), 9]
                @ map of_char (take k name) @ replicate (22 - k) (0::byte))
           = [2, 1, 6, 3, 3, 0x0D, 0x18, of_nat (k + 1), 9] @ map of_char (take k name)"
    using len by (simp add: take9 del: length_take)
  have enc: "fake_adv_data name = Inr ([2, 1, 6, 3, 3, 0x0D, 0x18, of_nat (k + 1), 9]
                @ map of_char (take k name) @ replicate (22 - k) 0, 9 + k)"
    unfolding k_def by (rule fake_adv_data_eq)
  show "\<exists>data. fake_adv_data name = Inr (data, 3 + 4 + 2 + k)
            \<and> take (3 + 4 + 2 + k) data
                = [2, 0x01, 0x06] @ [3, 0x03, 0x0D, 0x18] @ [of_nat (k + 1), 0x09]
                    @ map of_char (take k name)"
    using cut unfolding enc by (simp del: length_take take_append)
  show "k \<le> strlen name" "3 + 4 + 2 + k \<le> 31"
    by (simp_all add: k_def)
  show "\<forall>j. j \<le> strlen name \<and> 3 + 4 + 2 + j \<le> 31 \<longrightarrow> j \<le> k"
    by (simp add: k_def)
  show "\<exists>rc w'. fake_set_advertising_data r name w = Inr (rc, w')
             \<and> sent w' = sent w @ [LE_SET_ADVERTISING_DATA
                   ([2, 0x01, 0x06] @ [3, 0x03, 0x0D, 0x18] @ [of_nat (k + 1), 0x09]
                      @ map of_char (take k name))]"
    unfolding fake_set_advertising_data_eq k_def by simp
  show "strlen name \<le> 26 \<longrightarrow>
             linux_adv_data name
               = Inr ([2, 0x01, 0x06] @ [of_nat (strlen name + 1), 0x09]
                        @ map of_char (take (strlen name) name)
                        @ replicate (26 - strlen name) 0, 3 + 2 + strlen name)"
    using linux_adv_data_fits [of name] by simp
qed

theorem name_truncation_witness:
  "(\<exists>data. fake_adv_data (replicate 23 (CHR ''A'')) = Inr (data, 31)
        \<and> take 31 data = [2, 0x01, 0x06, 3, 0x03, 0x0D, 0x18, 23, 0x09] @ replicate 22 0x41)
   \<and> strlen ''DISP_01'' \<le> 26
   \<and> linux_adv_data ''DISP_01''
        = Inr ([2, 0x01, 0x06, 8, 0x09] @ map of_char ''DISP_01'' @ replicate 19 0, 12)"
proof -
  have len: "strlen (replicate 23 (CHR ''A'')) = 23" "strlen ''DISP_01'' = 7"
    by (simp_all add: strlen_def)
  from name_truncation [of "replicate 23 (CHR ''A'')" radio_ok world0]
  have "\<exists>data. fake_adv_data (replicate 23 (CHR ''A'')) = Inr (data, 31)
        \<and> take 31 data = [2, 0x01, 0x06, 3, 0x03, 0x0D, 0x18, 23, 0x09] @ replicate 22 0x41"
    unfolding len by simp
  moreover from name_truncation [of "''DISP_01''" radio_ok world0]
  have "linux_adv_data ''DISP_01''
        = Inr ([2, 0x01, 0x06, 8, 0x09] @ map of_char ''DISP_01'' @ replicate 19 0, 12)"
    unfolding len by simp
  ultimately show ?thesis
    by (simp add: len)
qed

subsection \<open>Exit status after an abort\<close>

text \<open>
  Claim C6 says that after a fatal step failure the process stops the radio, closes the
  session and exits with a non-zero status. The cleanup is as claimed, the status is not:
  both \<^verbatim>\<open>main\<close> functions end with \<^verbatim>\<open>return 0\<close>. A refused enable in \<^verbatim>\<open>linux.c\<close> and a
  refused payload in \<^verbatim>\<open>bluetoothFake.c\<close> both end in exit status 0.
\<close>

theorem exit_status_counterexample:
  "linux_main 1 bluez_str2ba radio_refuses_enable 3 =
     Inr (Exit 0
       \<lparr>sent = [LE_SET_ADVERTISE_ENABLE 0,
                LE_SET_RANDOM_ADDRESS [0x01, 0xEE, 0xDD, 0xCC, 0xBB, 0xAA],
                LE_SET_ADVERTISING_PARAMETERS adv_params,
                LE_SET_ADVERTISE_ENABLE 1,
                LE_SET_ADVERTISE_ENABLE 0],
        out = [''Broadcasting device DISP_01 with MAC AA:BB:CC:DD:EE:01'' @ [CHR 0x0A]],
        err = [''Enable advertising failed''],
        closed = True, slept = 0\<rparr>)
   \<and> fake_main 1 bluez_str2ba radio_refuses_data 0 3 =
     Inr (Exit 0
       \<lparr>sent = [LE_SET_ADVERTISE_ENABLE 0,
                LE_SET_RANDOM_ADDRESS [0x01, 0xEE, 0xDD, 0xCC, 0xBB, 0xAA],
                LE_SET_ADVERTISING_DATA ([2, 1, 6, 3, 3, 0x0D, 0x18, 12, 9] @ map of_char ''HRM_Brac_01''),
                LE_SET_ADVERTISE_ENABLE 0],
        out = [starting_line,
               ''Transmitindo como: HRM_Brac_01 | MAC: AA:BB:CC:DD:EE:01'' @ [CHR 0x0A],
               stopping_line],
        err = [''HCI_LE_SET_ADVERTISING_DATA failed''],
        closed = True, slept = 0\<rparr>)"
  unfolding linux_main_def fake_main_def roster_macs
  by (simp add: linux_body_def fake_body_def linux_names_def fake_names_def
      macs_str_def world0_def linux_set_advertising_data_fits fake_set_advertising_data_eq strlen_def
      stop_advertising_def set_random_mac_def start_advertising_def hci_send_cmd_def perror_def
      printf_def sleep_def close_def)


text \<open>
  Claim C6 as amended: when a step failure has ended the loop, \<^verbatim>\<open>main\<close> sends the disable
  command, closes the socket and exits with status 0. A loop that has ended within \<open>n\<close>
  passes has ended for every larger number of passes, so the process does return.
\<close>

theorem abort_cleans_up_and_exits_with_0:
  fixes r :: radio and str2ba :: "string \<Rightarrow> bdaddr" and w :: world
  assumes "0 \<le> sock" "0 \<le> dev_id"
  shows "(linux_loop n r (map str2ba macs_str) 0 world0 = Inr (Exited w) \<longrightarrow>
            (\<forall>k. \<exists>w'. linux_main (n + k) str2ba r sock = Inr (Exit 0 w')
                  \<and> w' = close (snd (stop_advertising r w))
                  \<and> sent w' = sent w @ [LE_SET_ADVERTISE_ENABLE 0] \<and> closed w'))
       \<and> (fake_loop n r (map str2ba macs_str) 0 (printf starting_line world0) = Inr (Exited w) \<longrightarrow>
            (\<forall>k. \<exists>w'. fake_main (n + k) str2ba r dev_id sock = Inr (Exit 0 w')
                  \<and> w' = close (snd (stop_advertising r (printf stopping_line w)))
                  \<and> sent w' = sent w @ [LE_SET_ADVERTISE_ENABLE 0] \<and> closed w'))"
proof (intro conjI impI allI)
  fix k
  assume "linux_loop n r (map str2ba macs_str) 0 world0 = Inr (Exited w)"
  then have "linux_loop (n + k) r (map str2ba macs_str) 0 world0 = Inr (Exited w)"
    by (rule linux_loop_more_passes)
  then have "linux_main (n + k) str2ba r sock = Inr (Exit 0 (close (snd (stop_advertising r w))))"
    using assms(1) by (simp add: linux_main_def split_beta)
  then show "\<exists>w'. linux_main (n + k) str2ba r sock = Inr (Exit 0 w')
                  \<and> w' = close (snd (stop_advertising r w))
                  \<and> sent w' = sent w @ [LE_SET_ADVERTISE_ENABLE 0] \<and> closed w'"
    using stop_then_close [of r w] by simp
next
  fix k
  assume "fake_loop n r (map str2ba macs_str) 0 (printf starting_line world0) = Inr (Exited w)"
  then have "fake_loop (n + k) r (map str2ba macs_str) 0 (printf starting_line world0) = Inr (Exited w)"
    by (rule fake_loop_more_passes)
  then have "fake_main (n + k) str2ba r dev_id sock
               = Inr (Exit 0 (close (snd (stop_advertising r (printf stopping_line w)))))"
    using assms by (simp add: fake_main_def split_beta)
  moreover have "sent (printf stopping_line w) = sent w"
    by (simp add: printf_def)
  ultimately show "\<exists>w'. fake_main (n + k) str2ba r dev_id sock = Inr (Exit 0 w')
                  \<and> w' = close (snd (stop_advertising r (printf stopping_line w)))
                  \<and> sent w' = sent w @ [LE_SET_ADVERTISE_ENABLE 0] \<and> closed w'"
    using stop_then_close [of r "printf stopping_line w"] by simp
qed

theorem abort_cleans_up_and_exits_with_0_witness:
  "(0::int) \<le> 3
   \<and> linux_loop 1 radio_refuses_enable (map bluez_str2ba macs_str) 0 world0 =
       Inr (Exited
         \<lparr>sent = [LE_SET_ADVERTISE_ENABLE 0,
                  LE_SET_RANDOM_ADDRESS [0x01, 0xEE, 0xDD, 0xCC, 0xBB, 0xAA],
                  LE_SET_ADVERTISING_PARAMETERS adv_params,
                  LE_SET_ADVERTISE_ENABLE 1],
          out = [''Broadcasting device DISP_01 with MAC AA:BB:CC:DD:EE:01'' @ [CHR 0x0A]],
          err = [''Enable advertising failed''],
          closed = False, slept = 0\<rparr>)
   \<and> linux_main 5 bluez_str2ba radio_refuses_enable 3 =
       Inr (Exit 0
         \<lparr>sent = [LE_SET_ADVERTISE_ENABLE 0,
                  LE_SET_RANDOM_ADDRESS [0x01, 0xEE, 0xDD, 0xCC, 0xBB, 0xAA],
                  LE_SET_ADVERTISING_PARAMETERS adv_params,
                  LE_SET_ADVERTISE_ENABLE 1,
                  LE_SET_ADVERTISE_ENABLE 0],
          out = [''Broadcasting device DISP_01 with MAC AA:BB:CC:DD:EE:01'' @ [CHR 0x0A]],
          err = [''Enable advertising failed''],
          closed = True, slept = 0\<rparr>)"
proof -
  let ?w = "\<lparr>sent = [LE_SET_ADVERTISE_ENABLE 0,
                  LE_SET_RANDOM_ADDRESS [0x01, 0xEE, 0xDD, 0xCC, 0xBB, 0xAA],
                  LE_SET_ADVERTISING_PARAMETERS adv_params,
                  LE_SET_ADVERTISE_ENABLE 1],
          out = [''Broadcasting device DISP_01 with MAC AA:BB:CC:DD:EE:01'' @ [CHR 0x0A]],
          err = [''Enable advertising failed''],
          closed = False, slept = 0\<rparr>"
  have pos: "(0::int) \<le> 3" "(0::int) \<le> 0"
    by simp_all
  note t = abort_cleans_up_and_exits_with_0 [OF pos, where n = 1 and r = radio_refuses_enable
      and ?str2ba = bluez_str2ba and w = ?w, THEN conjunct1, rule_format, OF linux_loop_refused_enable,
      where k = 4]
  then obtain w' where "linux_main (1 + 4) bluez_str2ba radio_refuses_enable 3 = Inr (Exit 0 w')"
    and "w' = close (snd (stop_advertising radio_refuses_enable ?w))"
    by blast
  then have "linux_main 5 bluez_str2ba radio_refuses_enable 3 =
       Inr (Exit 0 (close (snd (stop_advertising radio_refuses_enable ?w))))"
    by simp
  then show ?thesis
    using linux_loop_refused_enable
    by (simp add: stop_advertising_def hci_send_cmd_def perror_def close_def)
qed


subsection \<open>The payload branch of the loop in \<^verbatim>\<open>linux.c\<close>\<close>



end
